theory Spec2Isabelle
  imports Complex_Main
begin

section \<open>Behavioral scoring pipeline\<close>

text \<open>
  A shallow embedding of the behavioral authentication pipeline:
  \<^verbatim>\<open>ml/preprocessing.py\<close> (\<open>FeaturePreprocessor\<close>), \<^verbatim>\<open>ml/model.py\<close>
  (\<open>BehavioralAuthNN\<close>, \<open>BehavioralAnomalyDetector\<close>) and \<^verbatim>\<open>ml/inference.py\<close>
  (\<open>BehavioralInferenceEngine\<close>).

  The values of a feature dictionary are Python values, converted by \<open>float(...)\<close> as the
  code does; a float is a finite number, an infinity or NaN, and finite floats and float32
  tensors are modelled as \<open>real\<close> (rounding is not modelled). Every exception the code can
  raise is a value \<open>Inl e\<close> of a sum type. A tensor of shape \<open>(1, n)\<close> is a \<open>real list\<close>
  of length \<open>n\<close> (the engine always evaluates a batch of one sample).
\<close>

subsection \<open>Errors\<close>

datatype error =
    KeyError
  | IndexError
  | ZeroDivisionError
  | ValueError
  | TypeError
  | OverflowError
  | ShapeMismatch
  | SizeMismatch
  | NotScalar

definition bind_result :: "error + 'a \<Rightarrow> ('a \<Rightarrow> error + 'b) \<Rightarrow> error + 'b" where
  "bind_result r f = (case r of Inl e \<Rightarrow> Inl e | Inr v \<Rightarrow> f v)"

subsection \<open>Python values and floats\<close>

datatype py_float = Finite real | PosInf | NegInf | NaN

text \<open>
  What a feature dictionary (\<open>Dict[str, Any]\<close>) can hold, as far as \<open>float(...)\<close> tells
  values apart: \<open>None\<close>, a bool, an int, a float, and a string, which is modelled by the
  float it spells, if it spells one.
\<close>

datatype py_value =
    PyNone
  | PyBool bool
  | PyInt int
  | PyFloat py_float
  | PyStr "py_float option"

text \<open>
  \<open>float(v)\<close>. An int that would round to \<open>2 ^ 1024\<close> is too large for a float
  (\<open>OverflowError\<close>), \<open>None\<close> is a \<open>TypeError\<close>, a string that spells no float a
  \<open>ValueError\<close>.
\<close>

definition float_overflow :: int where
  "float_overflow = 2 ^ 1024 - 2 ^ 970"

definition to_float :: "py_value \<Rightarrow> error + py_float" where
  "to_float v =
     (case v of
        PyNone \<Rightarrow> Inl TypeError
      | PyBool b \<Rightarrow> Inr (Finite (if b then 1 else 0))
      | PyInt n \<Rightarrow>
          if \<bar>n\<bar> < float_overflow then Inr (Finite (real_of_int n)) else Inl OverflowError
      | PyFloat f \<Rightarrow> Inr f
      | PyStr None \<Rightarrow> Inl ValueError
      | PyStr (Some f) \<Rightarrow> Inr f)"

text \<open>
  \<open>x + c\<close> for a finite \<open>c\<close>, and \<open>a / b\<close> as Python divides floats: a zero divisor
  raises \<open>ZeroDivisionError\<close>, NaN propagates. (The values that \<open>np.clip\<close> returns are
  numpy scalars, whose division by zero gives an infinity or NaN with a warning; the
  division of Python floats, which raises, is the stricter of the two.)
\<close>

definition float_add :: "py_float \<Rightarrow> real \<Rightarrow> py_float" where
  "float_add x c = (case x of Finite r \<Rightarrow> Finite (r + c) | _ \<Rightarrow> x)"

definition float_div :: "py_float \<Rightarrow> py_float \<Rightarrow> error + py_float" where
  "float_div a b =
     (case b of
        Finite d \<Rightarrow>
          if d = 0 then Inl ZeroDivisionError
          else (case a of
                  Finite n \<Rightarrow> Inr (Finite (n / d))
                | PosInf \<Rightarrow> Inr (if 0 < d then PosInf else NegInf)
                | NegInf \<Rightarrow> Inr (if 0 < d then NegInf else PosInf)
                | NaN \<Rightarrow> Inr NaN)
      | NaN \<Rightarrow> Inr NaN
      | _ \<Rightarrow> (case a of Finite n \<Rightarrow> Inr (Finite 0) | _ \<Rightarrow> Inr NaN))"

text \<open>The numbers of a list of floats, when all of them are finite.\<close>

fun finite_values :: "py_float list \<Rightarrow> real list option" where
  "finite_values [] = Some []"
| "finite_values (Finite r # xs) = map_option ((#) r) (finite_values xs)"
| "finite_values (_ # xs) = None"

subsection \<open>FeaturePreprocessor\<close>

type_synonym raw_features = "string \<rightharpoonup> py_value"

definition feature_mins :: "string \<rightharpoonup> real" where
  "feature_mins =
     [''typing_speed_wpm'' \<mapsto> 10,
      ''avg_key_hold_time_ms'' \<mapsto> 20,
      ''avg_transition_time_ms'' \<mapsto> 20,
      ''error_rate_percent'' \<mapsto> 0,
      ''activity_hour_preference'' \<mapsto> 0]"

definition feature_maxs :: "string \<rightharpoonup> real" where
  "feature_maxs =
     [''typing_speed_wpm'' \<mapsto> 200,
      ''avg_key_hold_time_ms'' \<mapsto> 500,
      ''avg_transition_time_ms'' \<mapsto> 400,
      ''error_rate_percent'' \<mapsto> 50,
      ''activity_hour_preference'' \<mapsto> 23]"

text \<open>The names \<open>process_features\<close> iterates over, in the order of the loop.\<close>

definition processed_names :: "string list" where
  "processed_names =
     [''typing_speed_wpm'',
      ''avg_key_hold_time_ms'',
      ''avg_transition_time_ms'',
      ''error_rate_percent'',
      ''activity_hour_preference'']"

text \<open>\<open>features.get(feature_name, 0)\<close>.\<close>

definition get_default :: "raw_features \<Rightarrow> string \<Rightarrow> py_value" where
  "get_default features feature_name =
     (case features feature_name of None \<Rightarrow> PyInt 0 | Some v \<Rightarrow> v)"

text \<open>
  \<open>np.clip(value, lo, hi)\<close> is \<open>minimum(maximum(value, lo), hi)\<close>: an infinity goes to a
  bound, NaN stays NaN.
\<close>

definition np_clip :: "py_float \<Rightarrow> real \<Rightarrow> real \<Rightarrow> py_float" where
  "np_clip v lo hi =
     (case v of
        Finite r \<Rightarrow> Finite (min (max r lo) hi)
      | PosInf \<Rightarrow> Finite hi
      | NegInf \<Rightarrow> Finite (min lo hi)
      | NaN \<Rightarrow> NaN)"

text \<open>
  The body of the loop of \<open>process_features\<close>: \<open>float(features.get(feature_name, 0))\<close>
  raises on a value that is no number; indexing \<open>self.feature_mins\<close> or
  \<open>self.feature_maxs\<close> with an unknown name raises \<open>KeyError\<close>.
\<close>

fun process_loop ::
  "raw_features \<Rightarrow> string list \<Rightarrow> py_float list \<Rightarrow> error + py_float list" where
  "process_loop features [] processed = Inr processed"
| "process_loop features (feature_name # names) processed =
     bind_result (to_float (get_default features feature_name)) (\<lambda>v.
     case feature_mins feature_name of
       None \<Rightarrow> Inl KeyError
     | Some lo \<Rightarrow>
         (case feature_maxs feature_name of
            None \<Rightarrow> Inl KeyError
          | Some hi \<Rightarrow> process_loop features names (processed @ [np_clip v lo hi])))"

definition process_features :: "raw_features \<Rightarrow> error + py_float list" where
  "process_features features = process_loop features processed_names []"

subsection \<open>Derived features\<close>

text \<open>
  \<open>_add_derived_features\<close>: reading \<open>features[0..3]\<close> raises \<open>IndexError\<close> on a shorter
  list, and a Python float division by zero raises \<open>ZeroDivisionError\<close>.
\<close>

definition add_derived_features :: "py_float list \<Rightarrow> error + py_float list" where
  "add_derived_features features =
     (if length features < 4 then Inl IndexError
      else
        let typing_speed = features ! 0;
            key_hold_time = features ! 1;
            transition_time = features ! 2;
            error_rate = features ! 3
        in
          bind_result (float_div typing_speed (float_add error_rate 1)) (\<lambda>speed_accuracy.
          bind_result (float_div key_hold_time (float_add transition_time 1)) (\<lambda>rhythm_ratio.
          Inr (features @ [speed_accuracy, rhythm_ratio]))))"

text \<open>
  The first two steps of \<open>predict\<close> (and of the loop of \<open>_compare_with_historical\<close>):
  preprocess, then append the derived features.
\<close>

definition feature_vector :: "raw_features \<Rightarrow> error + py_float list" where
  "feature_vector features =
     bind_result (process_features features) add_derived_features"

text \<open>The example request of the specification.\<close>

definition example_features :: raw_features where
  "example_features =
     [''typing_speed_wpm'' \<mapsto> PyInt 65,
      ''avg_key_hold_time_ms'' \<mapsto> PyInt 120,
      ''avg_transition_time_ms'' \<mapsto> PyInt 85,
      ''error_rate_percent'' \<mapsto> PyInt 3,
      ''activity_hour_preference'' \<mapsto> PyInt 14]"

subsection \<open>Layers of \<open>torch.nn\<close> in evaluation mode\<close>

text \<open>
  \<open>nn.Linear(in_features, out_features)\<close>: \<open>weight\<close> has \<open>out_features\<close> rows of
  \<open>in_features\<close> entries. Applying it to an input whose last dimension is not
  \<open>in_features\<close> raises a shape error.
\<close>

record Linear =
  in_features :: nat
  out_features :: nat
  weight :: "real list list"
  bias :: "real list"

definition dot :: "real list \<Rightarrow> real list \<Rightarrow> real" where
  "dot xs ys = sum_list (map2 (*) xs ys)"

definition linear_forward :: "Linear \<Rightarrow> real list \<Rightarrow> error + real list" where
  "linear_forward l x =
     (if length x \<noteq> in_features l then Inl ShapeMismatch
      else Inr (map2 (\<lambda>row b. dot row x + b) (weight l) (bias l)))"

text \<open>
  \<open>nn.BatchNorm1d(num_features)\<close> after \<open>model.eval()\<close>: the running statistics are
  used, with the default \<open>eps = 1e-5\<close>.
\<close>

record BatchNorm1d =
  num_features :: nat
  bn_weight :: "real list"
  bn_bias :: "real list"
  running_mean :: "real list"
  running_var :: "real list"

definition bn_eps :: real where
  "bn_eps = 1 / 100000"

definition bn_scale :: "BatchNorm1d \<Rightarrow> real list" where
  "bn_scale bn = map2 (\<lambda>g v. g / sqrt (v + bn_eps)) (bn_weight bn) (running_var bn)"

definition batch_norm_eval :: "BatchNorm1d \<Rightarrow> real list \<Rightarrow> error + real list" where
  "batch_norm_eval bn x =
     (if length x \<noteq> num_features bn then Inl ShapeMismatch
      else Inr (map2 (+)
                  (map2 (*) (map2 (-) x (running_mean bn)) (bn_scale bn))
                  (bn_bias bn)))"

definition relu :: "real \<Rightarrow> real" where
  "relu v = max 0 v"

definition sigmoid :: "real \<Rightarrow> real" where
  "sigmoid z = 1 / (1 + exp (- z))"

text \<open>\<open>tensor.item()\<close>: defined on a tensor with exactly one element.\<close>

definition item :: "real list \<Rightarrow> error + real" where
  "item t = (case t of [v] \<Rightarrow> Inr v | _ \<Rightarrow> Inl NotScalar)"

subsection \<open>BehavioralAuthNN\<close>

record BehavioralAuthNN =
  fc1 :: Linear
  bn1 :: BatchNorm1d
  fc2 :: Linear
  bn2 :: BatchNorm1d
  fc3 :: Linear
  bn3 :: BatchNorm1d
  fc_out :: Linear

text \<open>
  One hidden layer up to its normalization (\<open>x = self.fc(x); x = self.bn(x)\<close>); the
  rectifier follows, and dropout is the identity in evaluation mode.
\<close>

definition hidden_block :: "Linear \<Rightarrow> BatchNorm1d \<Rightarrow> real list \<Rightarrow> error + real list" where
  "hidden_block fc bn x = bind_result (linear_forward fc x) (batch_norm_eval bn)"

definition forward :: "BehavioralAuthNN \<Rightarrow> real list \<Rightarrow> error + real list" where
  "forward m x =
     bind_result (hidden_block (fc1 m) (bn1 m) x) (\<lambda>b1.
     bind_result (hidden_block (fc2 m) (bn2 m) (map relu b1)) (\<lambda>b2.
     bind_result (hidden_block (fc3 m) (bn3 m) (map relu b2)) (\<lambda>b3.
     bind_result (linear_forward (fc_out m) (map relu b3)) (\<lambda>z.
     Inr (map sigmoid z)))))"

text \<open>
  The parameters stored in a checkpoint: for a linear layer the weight and the bias, for a
  normalization layer weight, bias, running mean and running variance.
\<close>

type_synonym linear_state = "real list list \<times> real list"
type_synonym bn_state = "real list \<times> real list \<times> real list \<times> real list"

record state_dict =
  sd_fc1 :: linear_state
  sd_bn1 :: bn_state
  sd_fc2 :: linear_state
  sd_bn2 :: bn_state
  sd_fc3 :: linear_state
  sd_bn3 :: bn_state
  sd_fc_out :: linear_state

text \<open>
  \<open>nn.Linear(n_in, n_out)\<close> followed by loading its parameters: \<open>load_state_dict\<close> raises
  on a tensor whose shape differs from the shape of the module's parameter.
\<close>

definition load_linear :: "nat \<Rightarrow> nat \<Rightarrow> linear_state \<Rightarrow> error + Linear" where
  "load_linear n_in n_out s =
     (case s of (w, b) \<Rightarrow>
        if length w = n_out \<and> list_all (\<lambda>row. length row = n_in) w \<and> length b = n_out
        then Inr \<lparr>in_features = n_in, out_features = n_out, weight = w, bias = b\<rparr>
        else Inl SizeMismatch)"

definition load_batch_norm :: "nat \<Rightarrow> bn_state \<Rightarrow> error + BatchNorm1d" where
  "load_batch_norm n s =
     (case s of (g, b, mu, var) \<Rightarrow>
        if length g = n \<and> length b = n \<and> length mu = n \<and> length var = n
        then Inr \<lparr>num_features = n, bn_weight = g, bn_bias = b,
                  running_mean = mu, running_var = var\<rparr>
        else Inl SizeMismatch)"

text \<open>
  \<open>BehavioralAuthNN(input_dim, hidden_dims)\<close> with the parameters of a checkpoint loaded
  into it (\<open>__init__\<close> of the model, then \<open>load_state_dict\<close>).
\<close>

definition BehavioralAuthNN_load ::
  "nat \<Rightarrow> nat \<times> nat \<times> nat \<Rightarrow> state_dict \<Rightarrow> error + BehavioralAuthNN" where
  "BehavioralAuthNN_load input_dim hidden_dims sd =
     (case hidden_dims of (h0, h1, h2) \<Rightarrow>
        bind_result (load_linear input_dim h0 (sd_fc1 sd)) (\<lambda>l1.
        bind_result (load_batch_norm h0 (sd_bn1 sd)) (\<lambda>n1.
        bind_result (load_linear h0 h1 (sd_fc2 sd)) (\<lambda>l2.
        bind_result (load_batch_norm h1 (sd_bn2 sd)) (\<lambda>n2.
        bind_result (load_linear h1 h2 (sd_fc3 sd)) (\<lambda>l3.
        bind_result (load_batch_norm h2 (sd_bn3 sd)) (\<lambda>n3.
        bind_result (load_linear h2 1 (sd_fc_out sd)) (\<lambda>lo.
        Inr \<lparr>fc1 = l1, bn1 = n1, fc2 = l2, bn2 = n2, fc3 = l3, bn3 = n3,
             fc_out = lo\<rparr>))))))))"

text \<open>The defaults of the constructor: \<open>input_dim = 6\<close>, \<open>hidden_dims = (128, 64, 32)\<close>.\<close>

definition default_input_dim :: nat where
  "default_input_dim = 6"

definition default_hidden_dims :: "nat \<times> nat \<times> nat" where
  "default_hidden_dims = (128, 64, 32)"

subsection \<open>Gradient of the output with respect to the input\<close>

text \<open>
  \<open>output.backward()\<close> followed by \<open>feature_tensor.grad\<close>: the chain rule through the
  layers of \<open>forward\<close>, from the output back to the input. The derivative of the rectifier
  at 0 is 0, and \<open>backward()\<close> without arguments needs an output of one element.
\<close>

definition linear_backward :: "Linear \<Rightarrow> real list \<Rightarrow> real list" where
  "linear_backward l g =
     map (\<lambda>j. dot (map (\<lambda>row. row ! j) (weight l)) g) [0..<in_features l]"

definition relu_backward :: "real list \<Rightarrow> real list \<Rightarrow> real list" where
  "relu_backward b g = map2 (\<lambda>v d. if v > 0 then d else 0) b g"

definition block_backward ::
  "Linear \<Rightarrow> BatchNorm1d \<Rightarrow> real list \<Rightarrow> real list \<Rightarrow> real list" where
  "block_backward fc bn b g =
     linear_backward fc (map2 (*) (relu_backward b g) (bn_scale bn))"

definition input_grad :: "BehavioralAuthNN \<Rightarrow> real list \<Rightarrow> error + real list" where
  "input_grad m x =
     bind_result (hidden_block (fc1 m) (bn1 m) x) (\<lambda>b1.
     bind_result (hidden_block (fc2 m) (bn2 m) (map relu b1)) (\<lambda>b2.
     bind_result (hidden_block (fc3 m) (bn3 m) (map relu b2)) (\<lambda>b3.
     bind_result (linear_forward (fc_out m) (map relu b3)) (\<lambda>z.
     bind_result (item (map sigmoid z)) (\<lambda>y.
     Inr (block_backward (fc1 m) (bn1 m) b1
           (block_backward (fc2 m) (bn2 m) b2
             (block_backward (fc3 m) (bn3 m) b3
               (linear_backward (fc_out m) [y * (1 - y)])))))))))"

subsection \<open>BehavioralAnomalyDetector\<close>

text \<open>
  The autoencoder: \<open>encoder\<close> and \<open>decoder\<close> are each three linear layers with a
  rectifier between them. \<open>anomaly_score\<close> is the mean over the features of the squared
  reconstruction error.
\<close>

record BehavioralAnomalyDetector =
  enc1 :: Linear
  enc2 :: Linear
  enc3 :: Linear
  dec1 :: Linear
  dec2 :: Linear
  dec3 :: Linear

definition sequential3 :: "Linear \<Rightarrow> Linear \<Rightarrow> Linear \<Rightarrow> real list \<Rightarrow> error + real list" where
  "sequential3 l1 l2 l3 x =
     bind_result (linear_forward l1 x) (\<lambda>a.
     bind_result (linear_forward l2 (map relu a)) (\<lambda>b.
     linear_forward l3 (map relu b)))"

definition anomaly_score_of :: "BehavioralAnomalyDetector \<Rightarrow> real list \<Rightarrow> error + real list" where
  "anomaly_score_of d x =
     bind_result (sequential3 (enc1 d) (enc2 d) (enc3 d) x) (\<lambda>encoded.
     bind_result (sequential3 (dec1 d) (dec2 d) (dec3 d) encoded) (\<lambda>reconstructed.
     if length reconstructed \<noteq> length x then Inl ShapeMismatch
     else
       let mse = map2 (\<lambda>r v. (r - v)\<^sup>2) reconstructed x in
       Inr [sum_list mse / real (length mse)]))"

subsection \<open>StandardScaler\<close>

text \<open>
  The fitted scaler read from the pickle file, with its \<open>mean_\<close> and \<open>scale_\<close> (one
  entry per feature it was fitted on): \<open>transform\<close> raises on an input with another number
  of features and returns \<open>(x - mean) / scale\<close>.
\<close>

record StandardScaler =
  scaler_mean :: "real list"
  scaler_scale :: "real list"

definition scaler_transform :: "StandardScaler \<Rightarrow> real list \<Rightarrow> error + real list" where
  "scaler_transform sc x =
     (if length x \<noteq> length (scaler_mean sc) \<or> length x \<noteq> length (scaler_scale sc)
      then Inl ValueError
      else Inr (map2 (/) (map2 (-) x (scaler_mean sc)) (scaler_scale sc)))"

subsection \<open>BehavioralInferenceEngine\<close>

record engine_stats =
  total_predictions :: nat
  total_inference_time :: real
  confidence_scores :: "int list"

record engine =
  model :: BehavioralAuthNN
  scaler :: "StandardScaler option"
  anomaly_detector :: "BehavioralAnomalyDetector option"
  stats :: engine_stats

record prediction =
  confidence_score :: int
  anomaly_score :: real
  feature_importance :: "(string \<times> real) list"

text \<open>
  \<open>__init__\<close>: the model is \<open>BehavioralAuthNN()\<close>, built with the defaults of its
  constructor, with the checkpoint loaded into it; the scaler is the one read from
  \<open>scaler_path\<close>, if any; no anomaly detector; empty statistics.
\<close>

definition engine_init :: "state_dict \<Rightarrow> StandardScaler option \<Rightarrow> error + engine" where
  "engine_init sd sc =
     bind_result (BehavioralAuthNN_load default_input_dim default_hidden_dims sd) (\<lambda>m.
     Inr \<lparr>model = m, scaler = sc, anomaly_detector = None,
          stats = \<lparr>total_predictions = 0, total_inference_time = 0,
                    confidence_scores = []\<rparr>\<rparr>)"

text \<open>Python's \<open>int(x)\<close> on a float: truncation towards zero.\<close>

definition py_int :: "real \<Rightarrow> int" where
  "py_int x = (if 0 \<le> x then \<lfloor>x\<rfloor> else \<lceil>x\<rceil>)"

definition calculate_anomaly_score :: "engine \<Rightarrow> real list \<Rightarrow> error + real" where
  "calculate_anomaly_score e feature_tensor =
     (case anomaly_detector e of
        None \<Rightarrow> Inr 0
      | Some d \<Rightarrow> bind_result (anomaly_score_of d feature_tensor) item)"

definition feature_names :: "string list" where
  "feature_names =
     [''typing_speed'',
      ''key_hold_time'',
      ''transition_time'',
      ''error_rate'',
      ''activity_hour'',
      ''speed_accuracy_ratio'',
      ''rhythm_ratio'']"

text \<open>
  The second half of \<open>_calculate_feature_importance\<close>, from the gradient of the input:
  absolute values, divided by their total when it is positive, paired with the names.
\<close>

definition importance_of_gradient :: "real list \<Rightarrow> (string \<times> real) list" where
  "importance_of_gradient grad =
     (let gradients = map abs grad;
          total = sum_list gradients;
          gradients = (if total > 0 then map (\<lambda>g. g / total) gradients else gradients)
      in zip feature_names gradients)"

definition calculate_feature_importance ::
  "engine \<Rightarrow> real list \<Rightarrow> error + (string \<times> real) list" where
  "calculate_feature_importance e feature_tensor =
     bind_result (input_grad (model e) feature_tensor) (\<lambda>grad.
     Inr (importance_of_gradient grad))"

text \<open>The loop of \<open>_compare_with_historical\<close> that builds \<open>historical_vectors\<close>.\<close>

fun historical_loop ::
  "raw_features list \<Rightarrow> py_float list list \<Rightarrow> error + py_float list list" where
  "historical_loop [] historical_vectors = Inr historical_vectors"
| "historical_loop (pattern # patterns) historical_vectors =
     bind_result (process_features pattern) (\<lambda>processed.
     bind_result (add_derived_features processed) (\<lambda>processed.
     historical_loop patterns (historical_vectors @ [processed])))"

text \<open>\<open>np.mean(vectors, axis=0)\<close> of vectors of one length, and \<open>np.linalg.norm\<close>.\<close>

definition np_mean_axis0 :: "real list list \<Rightarrow> real list" where
  "np_mean_axis0 vectors =
     (case vectors of
        [] \<Rightarrow> []
      | v # _ \<Rightarrow>
          map (\<lambda>i. sum_list (map (\<lambda>w. w ! i) vectors) / real (length vectors))
            [0..<length v])"

definition np_linalg_norm :: "real list \<Rightarrow> real" where
  "np_linalg_norm v = sqrt (sum_list (map (\<lambda>c. c\<^sup>2) v))"

text \<open>
  \<open>_compare_with_historical\<close>. A NaN in a historical vector makes the mean and the
  distance NaN, and Python's \<open>max(0, nan)\<close> is \<open>0\<close>.
\<close>

definition compare_with_historical :: "real list \<Rightarrow> raw_features list \<Rightarrow> error + real" where
  "compare_with_historical current_features historical_patterns =
     (if historical_patterns = [] then Inr 50
      else
        bind_result (historical_loop historical_patterns []) (\<lambda>historical_vectors.
        case those (map finite_values historical_vectors) of
          None \<Rightarrow> Inr 0
        | Some historical_vectors \<Rightarrow>
            let mean_historical = np_mean_axis0 historical_vectors;
                distance = np_linalg_norm (map2 (-) current_features mean_historical);
                max_distance = 100;
                similarity = max 0 (100 - (distance / max_distance) * 100)
            in Inr similarity))"

definition update_stats :: "engine_stats \<Rightarrow> int \<Rightarrow> real \<Rightarrow> engine_stats" where
  "update_stats s confidence inference_time =
     (let s1 = s\<lparr>total_predictions := total_predictions s + 1,
                 total_inference_time := total_inference_time s + inference_time,
                 confidence_scores := confidence_scores s @ [confidence]\<rparr>
      in if length (confidence_scores s1) > 1000
         then s1\<lparr>confidence_scores := tl (confidence_scores s1)\<rparr>
         else s1)"

text \<open>
  Python's truth value of \<open>historical_patterns\<close>: \<open>None\<close> and the empty list are false.
\<close>

definition truthy :: "raw_features list option \<Rightarrow> bool" where
  "truthy historical_patterns =
     (case historical_patterns of None \<Rightarrow> False | Some ps \<Rightarrow> ps \<noteq> [])"

text \<open>
  \<open>predict\<close>. The elapsed wall-clock time measured by the call is the argument
  \<open>inference_time\<close>. An exception leaves the engine as it was; a result comes with the
  engine whose statistics are updated.

  After clipping an entry of the feature vector is a finite number or NaN. A NaN among
  the processed features goes through the scaler and through every layer of the model,
  whose shape errors are those of any tensor of that length; the output is NaN and
  \<open>int(nan)\<close> raises \<open>ValueError\<close>.
\<close>

definition predict ::
  "engine \<Rightarrow> raw_features \<Rightarrow> raw_features list option \<Rightarrow> real
     \<Rightarrow> error + (prediction \<times> engine)" where
  "predict e features historical_patterns inference_time =
     bind_result (process_features features) (\<lambda>processed_features.
     bind_result (add_derived_features processed_features) (\<lambda>processed_features.
     case finite_values processed_features of
       None \<Rightarrow>
         bind_result (let zeros = map (\<lambda>_. 0) processed_features in
                      case scaler e of
                        None \<Rightarrow> Inr zeros
                      | Some sc \<Rightarrow> scaler_transform sc zeros) (\<lambda>feature_tensor.
         bind_result (forward (model e) feature_tensor) (\<lambda>confidence_logit.
         bind_result (item confidence_logit) (\<lambda>_. Inl ValueError)))
     | Some processed_features \<Rightarrow>
     bind_result (case scaler e of
                    None \<Rightarrow> Inr processed_features
                  | Some sc \<Rightarrow> scaler_transform sc processed_features) (\<lambda>feature_tensor.
     bind_result (forward (model e) feature_tensor) (\<lambda>confidence_logit.
     bind_result (item (map (\<lambda>v. v * 100) confidence_logit)) (\<lambda>scaled.
     let confidence_score = py_int scaled in
     bind_result (if anomaly_detector e \<noteq> None
                  then calculate_anomaly_score e feature_tensor
                  else Inr 0) (\<lambda>anomaly_score.
     bind_result (calculate_feature_importance e feature_tensor) (\<lambda>feature_importance.
     bind_result (if truthy historical_patterns
                  then bind_result (compare_with_historical processed_features
                                      (the historical_patterns)) (\<lambda>historical_score.
                       Inr (py_int (real_of_int confidence_score * 0.7
                                    + historical_score * 0.3)))
                  else Inr confidence_score) (\<lambda>confidence_score.
     Inr (\<lparr>confidence_score = confidence_score, anomaly_score = anomaly_score,
           feature_importance = feature_importance\<rparr>,
          e\<lparr>stats := update_stats (stats e) confidence_score inference_time\<rparr>)))))))))"

text \<open>
  \<open>get_stats\<close>. \<open>round(x, 2)\<close> rounds to two decimals, a tie to the even neighbour.
\<close>

definition rint :: "real \<Rightarrow> int" where
  "rint x =
     (let f = \<lfloor>x\<rfloor>; d = x - of_int f
      in if d < 1 / 2 then f
         else if d > 1 / 2 then f + 1
         else if even f then f else f + 1)"





text \<open>
  The block of \<open>predict\<close> that compares with the history (\<open>if historical_patterns: ...\<close>),
  as a function of the history, the processed features and the confidence of the model.
\<close>

definition fuse :: "raw_features list option \<Rightarrow> real list \<Rightarrow> int \<Rightarrow> error + int" where
  "fuse historical_patterns processed_features confidence =
     (if truthy historical_patterns
      then bind_result (compare_with_historical processed_features
                          (the historical_patterns)) (\<lambda>historical_score.
           Inr (py_int (real_of_int confidence * 0.7 + historical_score * 0.3)))
      else Inr confidence)"

subsection \<open>Sample checkpoints and engines\<close>

text \<open>
  \<open>model.state_dict()\<close>, as the training script saves it, and concrete models used to
  evaluate the engine: a model whose layers have zero weights (its output is
  \<open>sigmoid b\<close> on every input of the right length), and a model of hidden widths
  \<open>(1, 1, 1)\<close> that reads the first feature only.
\<close>

definition linear_state_of :: "Linear \<Rightarrow> linear_state" where
  "linear_state_of l = (weight l, bias l)"

definition bn_state_of :: "BatchNorm1d \<Rightarrow> bn_state" where
  "bn_state_of bn = (bn_weight bn, bn_bias bn, running_mean bn, running_var bn)"

definition state_dict_of :: "BehavioralAuthNN \<Rightarrow> state_dict" where
  "state_dict_of m =
     \<lparr>sd_fc1 = linear_state_of (fc1 m), sd_bn1 = bn_state_of (bn1 m),
      sd_fc2 = linear_state_of (fc2 m), sd_bn2 = bn_state_of (bn2 m),
      sd_fc3 = linear_state_of (fc3 m), sd_bn3 = bn_state_of (bn3 m),
      sd_fc_out = linear_state_of (fc_out m)\<rparr>"

definition constant_linear :: "nat \<Rightarrow> nat \<Rightarrow> real \<Rightarrow> Linear" where
  "constant_linear n_in n_out b =
     \<lparr>in_features = n_in, out_features = n_out,
      weight = replicate n_out (replicate n_in 0), bias = replicate n_out b\<rparr>"

definition identity_batch_norm :: "nat \<Rightarrow> BatchNorm1d" where
  "identity_batch_norm n =
     \<lparr>num_features = n, bn_weight = replicate n 1, bn_bias = replicate n 0,
      running_mean = replicate n 0, running_var = replicate n (1 - bn_eps)\<rparr>"

definition constant_model :: "nat \<Rightarrow> nat \<times> nat \<times> nat \<Rightarrow> real \<Rightarrow> BehavioralAuthNN" where
  "constant_model input_dim hidden_dims b =
     (case hidden_dims of (h0, h1, h2) \<Rightarrow>
        \<lparr>fc1 = constant_linear input_dim h0 0, bn1 = identity_batch_norm h0,
         fc2 = constant_linear h0 h1 0, bn2 = identity_batch_norm h1,
         fc3 = constant_linear h1 h2 0, bn3 = identity_batch_norm h2,
         fc_out = constant_linear h2 1 b\<rparr>)"

definition first_feature_model :: BehavioralAuthNN where
  "first_feature_model =
     \<lparr>fc1 = \<lparr>in_features = 7, out_features = 1,
             weight = [[1, 0, 0, 0, 0, 0, 0]], bias = [0]\<rparr>,
      bn1 = identity_batch_norm 1,
      fc2 = \<lparr>in_features = 1, out_features = 1, weight = [[1]], bias = [0]\<rparr>,
      bn2 = identity_batch_norm 1,
      fc3 = \<lparr>in_features = 1, out_features = 1, weight = [[1]], bias = [0]\<rparr>,
      bn3 = identity_batch_norm 1,
      fc_out = \<lparr>in_features = 1, out_features = 1, weight = [[1]], bias = [0]\<rparr>\<rparr>"

definition fresh_stats :: engine_stats where
  "fresh_stats = \<lparr>total_predictions = 0, total_inference_time = 0, confidence_scores = []\<rparr>"

definition engine_of :: "BehavioralAuthNN \<Rightarrow> engine" where
  "engine_of m = \<lparr>model = m, scaler = None, anomaly_detector = None, stats = fresh_stats\<rparr>"

text \<open>
  The engine around the zero-weight model of input width \<open>input_dim\<close>, with the default
  hidden widths.
\<close>

definition constant_engine :: "nat \<Rightarrow> real \<Rightarrow> engine" where
  "constant_engine input_dim b = engine_of (constant_model input_dim default_hidden_dims b)"


text \<open>
  An entry of a feature dictionary that is absent, and so read as 0, or holds the finite
  number \<open>r\<close>: a bool, an int below \<open>float_overflow\<close> in magnitude, a finite float, or a
  string that spells one.
\<close>

definition finite_number :: "py_value option \<Rightarrow> real \<Rightarrow> bool" where
  "finite_number entry r =
     (case entry of
        None \<Rightarrow> r = 0
      | Some PyNone \<Rightarrow> False
      | Some (PyBool b) \<Rightarrow> r = (if b then 1 else 0)
      | Some (PyInt n) \<Rightarrow> \<bar>n\<bar> < float_overflow \<and> r = real_of_int n
      | Some (PyFloat f) \<Rightarrow> f = Finite r
      | Some (PyStr s) \<Rightarrow> s = Some (Finite r))"

section \<open>Results as values\<close>

lemma bind_result_Inr_iff:
  "bind_result r f = Inr y \<longleftrightarrow> (\<exists>v. r = Inr v \<and> f v = Inr y)"
  by (cases r) (simp_all add: bind_result_def)

lemma bind_result_Inr [simp]: "bind_result (Inr v) f = f v"
  by (simp add: bind_result_def)

lemma bind_result_Inl [simp]: "bind_result (Inl e) f = Inl e"
  by (simp add: bind_result_def)

lemma item_Inr_iff: "item t = Inr v \<longleftrightarrow> t = [v]"
  by (auto simp: item_def split: list.splits)

section \<open>Normalization\<close>

lemma float_overflow_pos: "0 < float_overflow"
proof -
  have "(2::int) ^ 970 < 2 ^ 1024" by (rule power_strict_increasing) simp_all
  then show ?thesis by (simp add: float_overflow_def del: power_numeral)
qed

lemma to_float_finite_number:
  assumes "finite_number (features name) r"
  shows "to_float (get_default features name) = Inr (Finite r)"
proof (cases "features name")
  case None
  with assms float_overflow_pos show ?thesis
    by (simp add: finite_number_def get_default_def to_float_def)
next
  case (Some v)
  with assms show ?thesis
    by (cases v)
       (auto simp: finite_number_def get_default_def to_float_def split: option.splits)
qed

lemma process_features_eq:
  "process_features features =
     bind_result (to_float (get_default features ''typing_speed_wpm'')) (\<lambda>t.
     bind_result (to_float (get_default features ''avg_key_hold_time_ms'')) (\<lambda>k.
     bind_result (to_float (get_default features ''avg_transition_time_ms'')) (\<lambda>r.
     bind_result (to_float (get_default features ''error_rate_percent'')) (\<lambda>e.
     bind_result (to_float (get_default features ''activity_hour_preference'')) (\<lambda>a.
     Inr [np_clip t 10 200, np_clip k 20 500, np_clip r 20 400, np_clip e 0 50,
          np_clip a 0 23])))))"
  by (simp add: process_features_def processed_names_def feature_mins_def feature_maxs_def)

lemma process_features_Inr:
  assumes "process_features features = Inr p"
  shows "\<exists>t k r e a.
           p = [np_clip t 10 200, np_clip k 20 500, np_clip r 20 400, np_clip e 0 50,
                np_clip a 0 23]"
  using assms unfolding process_features_eq bind_result_Inr_iff by auto

lemma np_clip_cases:
  assumes "lo \<le> hi"
  shows "np_clip v lo hi = NaN \<or> (\<exists>c. np_clip v lo hi = Finite c \<and> lo \<le> c \<and> c \<le> hi)"
  using assms by (cases v) (simp_all add: np_clip_def)

lemma float_div_clipped:
  assumes "0 \<le> lo" "lo \<le> hi" "lo' \<le> hi'"
  shows "float_div (np_clip a lo' hi') (float_add (np_clip b lo hi) 1) =
     Inr (case (np_clip a lo' hi', np_clip b lo hi) of
            (Finite n, Finite d) \<Rightarrow> Finite (n / (d + 1))
          | _ \<Rightarrow> NaN)"
proof -
  from np_clip_cases [OF assms(2), of b] np_clip_cases [OF assms(3), of a] assms(1)
  show ?thesis
    by (auto simp: float_div_def float_add_def)
qed

lemma feature_vector_of_processed:
  assumes "process_features features = Inr p"
  shows "feature_vector features =
     Inr (p @ [case (p ! 0, p ! 3) of (Finite t, Finite e) \<Rightarrow> Finite (t / (e + 1)) | _ \<Rightarrow> NaN,
               case (p ! 1, p ! 2) of (Finite k, Finite r) \<Rightarrow> Finite (k / (r + 1)) | _ \<Rightarrow> NaN])
     \<and> add_derived_features p = feature_vector features"
proof -
  from process_features_Inr [OF assms] obtain t k r e a where
    p: "p = [np_clip t 10 200, np_clip k 20 500, np_clip r 20 400, np_clip e 0 50,
             np_clip a 0 23]" by blast
  have 1: "float_div (np_clip t 10 200) (float_add (np_clip e 0 50) 1) =
     Inr (case (np_clip t 10 200, np_clip e 0 50) of
            (Finite n, Finite d) \<Rightarrow> Finite (n / (d + 1)) | _ \<Rightarrow> NaN)"
    by (rule float_div_clipped) simp_all
  have 2: "float_div (np_clip k 20 500) (float_add (np_clip r 20 400) 1) =
     Inr (case (np_clip k 20 500, np_clip r 20 400) of
            (Finite n, Finite d) \<Rightarrow> Finite (n / (d + 1)) | _ \<Rightarrow> NaN)"
    by (rule float_div_clipped) simp_all
  have 3: "add_derived_features p = feature_vector features"
    by (simp add: feature_vector_def assms)
  have "add_derived_features p =
     Inr (p @ [case (p ! 0, p ! 3) of (Finite t, Finite e) \<Rightarrow> Finite (t / (e + 1)) | _ \<Rightarrow> NaN,
               case (p ! 1, p ! 2) of (Finite k, Finite r) \<Rightarrow> Finite (k / (r + 1)) | _ \<Rightarrow> NaN])"
    unfolding p add_derived_features_def Let_def
    by (simp add: 1 2 del: prod.case)
  with 3 show ?thesis by simp
qed

lemma feature_vector_length:
  assumes "feature_vector features = Inr v"
  shows "length v = 7"
proof -
  from assms obtain p where p: "process_features features = Inr p"
    unfolding feature_vector_def bind_result_Inr_iff by blast
  from process_features_Inr [OF p] have "length p = 5" by auto
  with feature_vector_of_processed [OF p] assms show ?thesis by auto
qed

lemma process_features_finite:
  assumes "finite_number (features ''typing_speed_wpm'') t"
    and "finite_number (features ''avg_key_hold_time_ms'') k"
    and "finite_number (features ''avg_transition_time_ms'') r"
    and "finite_number (features ''error_rate_percent'') e"
    and "finite_number (features ''activity_hour_preference'') a"
  shows "process_features features =
     Inr [Finite (min (max t 10) 200), Finite (min (max k 20) 500),
          Finite (min (max r 20) 400), Finite (min (max e 0) 50),
          Finite (min (max a 0) 23)]"
  unfolding process_features_eq
    to_float_finite_number [where features = features, OF assms(1)]
    to_float_finite_number [where features = features, OF assms(2)]
    to_float_finite_number [where features = features, OF assms(3)]
    to_float_finite_number [where features = features, OF assms(4)]
    to_float_finite_number [where features = features, OF assms(5)]
  by (simp add: np_clip_def)

lemma feature_vector_finite:
  assumes "finite_number (features ''typing_speed_wpm'') t"
    and "finite_number (features ''avg_key_hold_time_ms'') k"
    and "finite_number (features ''avg_transition_time_ms'') r"
    and "finite_number (features ''error_rate_percent'') e"
    and "finite_number (features ''activity_hour_preference'') a"
  shows "feature_vector features =
     Inr [Finite (min (max t 10) 200), Finite (min (max k 20) 500),
          Finite (min (max r 20) 400), Finite (min (max e 0) 50),
          Finite (min (max a 0) 23),
          Finite (min (max t 10) 200 / (min (max e 0) 50 + 1)),
          Finite (min (max k 20) 500 / (min (max r 20) 400 + 1))]"
  using feature_vector_of_processed [OF process_features_finite [OF assms]]
  by simp

lemma finite_number_simps:
  "finite_number None r \<longleftrightarrow> r = 0"
  "finite_number (Some (PyInt n)) r \<longleftrightarrow> \<bar>n\<bar> < float_overflow \<and> r = real_of_int n"
  "finite_number (Some (PyFloat f)) r \<longleftrightarrow> f = Finite r"
  by (simp_all add: finite_number_def)

lemma small_int_fits: "n \<le> 1000 \<Longrightarrow> n < float_overflow"
proof -
  have "(2::int) ^ 970 * 2 ^ 1 \<le> 2 ^ 970 * 2 ^ 54"
    by (intro mult_left_mono power_increasing zero_le_power) simp_all
  then have a: "(2::int) ^ 970 + 2 ^ 970 \<le> 2 ^ (970 + 54)"
    unfolding power_add by (simp del: power_numeral)
  have "(1000::int) < 2 ^ 10" by simp
  also have "(2::int) ^ 10 \<le> 2 ^ 970" by (rule power_increasing) simp_all
  finally have b: "(1000::int) < 2 ^ 970" .
  have c: "(970::nat) + 54 = 1024" by simp
  assume "n \<le> 1000"
  with a b show ?thesis unfolding float_overflow_def c by linarith
qed

lemma feature_vector_example:
  "feature_vector example_features =
     Inr [Finite 65, Finite 120, Finite 85, Finite 3, Finite 14, Finite (65 / 4),
          Finite (120 / 86)]"
proof -
  have "feature_vector example_features =
     Inr [Finite (min (max 65 10) 200), Finite (min (max 120 20) 500),
          Finite (min (max 85 20) 400), Finite (min (max 3 0) 50),
          Finite (min (max 14 0) 23),
          Finite (min (max 65 10) 200 / (min (max 3 0) 50 + 1)),
          Finite (min (max 120 20) 500 / (min (max 85 20) 400 + 1))]"
    by (rule feature_vector_finite)
       (simp_all add: example_features_def finite_number_simps small_int_fits)
  then show ?thesis by simp
qed




text \<open>
  Claim C7. Whenever normalization returns, the two appended values are
  \<open>typing_speed / (error_rate + 1)\<close> and \<open>key_hold_time / (transition_time + 1)\<close> of the
  clipped values (NaN when one of the two is NaN), and both denominators are at least 1,
  so there is no division error, also at error rate 0 and transition time 0. For a
  dictionary of finite numbers the vector is the five clipped values followed by the two
  quotients, and the example request gives \<open>[65, 120, 85, 3, 14, 16.25, 120/86]\<close>.
\<close>

theorem derived_features_defined:
  "(\<forall>p. process_features features = Inr p \<longrightarrow>
      add_derived_features p =
        Inr (p @ [case (p ! 0, p ! 3) of
                    (Finite t, Finite e) \<Rightarrow> Finite (t / (e + 1)) | _ \<Rightarrow> NaN,
                  case (p ! 1, p ! 2) of
                    (Finite k, Finite r) \<Rightarrow> Finite (k / (r + 1)) | _ \<Rightarrow> NaN])
      \<and> feature_vector features = add_derived_features p
      \<and> (\<forall>e. p ! 3 = Finite e \<longrightarrow> 1 \<le> e + 1)
      \<and> (\<forall>r. p ! 2 = Finite r \<longrightarrow> 1 \<le> r + 1))
   \<and> (\<forall>t k r e a.
        finite_number (features ''typing_speed_wpm'') t \<longrightarrow>
        finite_number (features ''avg_key_hold_time_ms'') k \<longrightarrow>
        finite_number (features ''avg_transition_time_ms'') r \<longrightarrow>
        finite_number (features ''error_rate_percent'') e \<longrightarrow>
        finite_number (features ''activity_hour_preference'') a \<longrightarrow>
        feature_vector features =
          Inr [Finite (min (max t 10) 200), Finite (min (max k 20) 500),
               Finite (min (max r 20) 400), Finite (min (max e 0) 50),
               Finite (min (max a 0) 23),
               Finite (min (max t 10) 200 / (min (max e 0) 50 + 1)),
               Finite (min (max k 20) 500 / (min (max r 20) 400 + 1))]
        \<and> 1 \<le> min (max e 0) 50 + 1 \<and> 1 \<le> min (max r 20) 400 + 1)
   \<and> feature_vector [''error_rate_percent'' \<mapsto> PyInt 0, ''avg_transition_time_ms'' \<mapsto> PyInt 0]
       = Inr [Finite 10, Finite 20, Finite 20, Finite 0, Finite 0, Finite 10, Finite (20 / 21)]
   \<and> feature_vector example_features =
       Inr [Finite 65, Finite 120, Finite 85, Finite 3, Finite 14, Finite 16.25,
            Finite (120 / 86)]"
proof (intro conjI allI impI)
  fix p
  assume p: "process_features features = Inr p"
  from feature_vector_of_processed [OF p]
  show "add_derived_features p =
        Inr (p @ [case (p ! 0, p ! 3) of
                    (Finite t, Finite e) \<Rightarrow> Finite (t / (e + 1)) | _ \<Rightarrow> NaN,
                  case (p ! 1, p ! 2) of
                    (Finite k, Finite r) \<Rightarrow> Finite (k / (r + 1)) | _ \<Rightarrow> NaN])"
    by simp
  from feature_vector_of_processed [OF p]
  show "feature_vector features = add_derived_features p" by simp
  from process_features_Inr [OF p] obtain t k r e a where
    pe: "p = [np_clip t 10 200, np_clip k 20 500, np_clip r 20 400, np_clip e 0 50,
              np_clip a 0 23]" by blast
  { fix c assume "p ! 3 = Finite c"
    with pe np_clip_cases [of 0 50 e] show "1 \<le> c + 1" by auto }
  { fix c assume "p ! 2 = Finite c"
    with pe np_clip_cases [of 20 400 r] show "1 \<le> c + 1" by auto }
next
  fix t k r e a
  assume a: "finite_number (features ''typing_speed_wpm'') t"
    "finite_number (features ''avg_key_hold_time_ms'') k"
    "finite_number (features ''avg_transition_time_ms'') r"
    "finite_number (features ''error_rate_percent'') e"
    "finite_number (features ''activity_hour_preference'') a"
  show "feature_vector features =
          Inr [Finite (min (max t 10) 200), Finite (min (max k 20) 500),
               Finite (min (max r 20) 400), Finite (min (max e 0) 50),
               Finite (min (max a 0) 23),
               Finite (min (max t 10) 200 / (min (max e 0) 50 + 1)),
               Finite (min (max k 20) 500 / (min (max r 20) 400 + 1))]"
    by (rule feature_vector_finite [OF a])
  show "1 \<le> min (max e 0) 50 + 1" by simp
  show "1 \<le> min (max r 20) 400 + 1" by simp
next
  have "feature_vector [''error_rate_percent'' \<mapsto> PyInt 0, ''avg_transition_time_ms'' \<mapsto> PyInt 0] =
     Inr [Finite (min (max 0 10) 200), Finite (min (max 0 20) 500),
          Finite (min (max 0 20) 400), Finite (min (max 0 0) 50),
          Finite (min (max 0 0) 23),
          Finite (min (max 0 10) 200 / (min (max 0 0) 50 + 1)),
          Finite (min (max 0 20) 500 / (min (max 0 20) 400 + 1))]"
    by (rule feature_vector_finite) (simp_all add: finite_number_simps small_int_fits)
  then show "feature_vector [''error_rate_percent'' \<mapsto> PyInt 0, ''avg_transition_time_ms'' \<mapsto> PyInt 0]
       = Inr [Finite 10, Finite 20, Finite 20, Finite 0, Finite 0, Finite 10, Finite (20 / 21)]"
    by simp
next
  show "feature_vector example_features =
       Inr [Finite 65, Finite 120, Finite 85, Finite 3, Finite 14, Finite 16.25,
            Finite (120 / 86)]"
    using feature_vector_example by simp
qed

theorem derived_features_defined_witness:
  "add_derived_features [Finite 200, Finite 20, Finite 20, Finite 0, Finite 0] =
     Inr [Finite 200, Finite 20, Finite 20, Finite 0, Finite 0, Finite 200, Finite (20 / 21)]
   \<and> feature_vector [''typing_speed_wpm'' \<mapsto> PyInt 500] =
     Inr [Finite 200, Finite 20, Finite 20, Finite 0, Finite 0, Finite 200, Finite (20 / 21)]"
proof -
  have p: "process_features [''typing_speed_wpm'' \<mapsto> PyInt 500] =
     Inr [Finite (min (max 500 10) 200), Finite (min (max 0 20) 500),
          Finite (min (max 0 20) 400), Finite (min (max 0 0) 50), Finite (min (max 0 0) 23)]"
    by (rule process_features_finite) (simp_all add: finite_number_simps small_int_fits)
  from derived_features_defined [of "[''typing_speed_wpm'' \<mapsto> PyInt 500]"] p
  have 1: "add_derived_features [Finite 200, Finite 20, Finite 20, Finite 0, Finite 0] =
     Inr [Finite 200, Finite 20, Finite 20, Finite 0, Finite 0, Finite 200, Finite (20 / 21)]"
    by simp
  from derived_features_defined [of "[''typing_speed_wpm'' \<mapsto> PyInt 500]"]
  have "finite_number ([''typing_speed_wpm'' \<mapsto> PyInt 500] ''typing_speed_wpm'') 500 \<longrightarrow>
        finite_number ([''typing_speed_wpm'' \<mapsto> PyInt 500] ''avg_key_hold_time_ms'') 0 \<longrightarrow>
        finite_number ([''typing_speed_wpm'' \<mapsto> PyInt 500] ''avg_transition_time_ms'') 0 \<longrightarrow>
        finite_number ([''typing_speed_wpm'' \<mapsto> PyInt 500] ''error_rate_percent'') 0 \<longrightarrow>
        finite_number ([''typing_speed_wpm'' \<mapsto> PyInt 500] ''activity_hour_preference'') 0 \<longrightarrow>
        feature_vector [''typing_speed_wpm'' \<mapsto> PyInt 500] =
          Inr [Finite (min (max 500 10) 200), Finite (min (max 0 20) 500),
               Finite (min (max 0 20) 400), Finite (min (max 0 0) 50),
               Finite (min (max 0 0) 23),
               Finite (min (max 500 10) 200 / (min (max 0 0) 50 + 1)),
               Finite (min (max 0 20) 500 / (min (max 0 20) 400 + 1))]
        \<and> 1 \<le> min (max 0 0) 50 + (1::real) \<and> 1 \<le> min (max 0 20) 400 + (1::real)"
    by blast
  then have 2: "feature_vector [''typing_speed_wpm'' \<mapsto> PyInt 500] =
     Inr [Finite 200, Finite 20, Finite 20, Finite 0, Finite 0, Finite 200, Finite (20 / 21)]"
    by (simp add: finite_number_simps small_int_fits)
  from 1 2 show ?thesis by simp
qed

section \<open>The model\<close>

lemma sigmoid_bounds: "0 < sigmoid z \<and> sigmoid z < 1"
proof -
  have "0 < exp (- z)" by simp
  then show ?thesis by (simp add: sigmoid_def add_pos_pos)
qed

lemma forward_Inr_sigmoid:
  "forward m x = Inr ys \<Longrightarrow> \<exists>zs. ys = map sigmoid zs"
  unfolding forward_def bind_result_Inr_iff by auto

lemma forward_Inr_length:
  "forward m x = Inr ys \<Longrightarrow> length x = in_features (fc1 m)"
  unfolding forward_def hidden_block_def bind_result_Inr_iff linear_forward_def
  by (auto split: if_splits)

lemma forward_wrong_length:
  "length x \<noteq> in_features (fc1 m) \<Longrightarrow> forward m x = Inl ShapeMismatch"
  by (simp add: forward_def hidden_block_def linear_forward_def)

lemma forward_single:
  assumes "forward m x = Inr [s]"
  shows "0 < s \<and> s < 1"
proof -
  from forward_Inr_sigmoid [OF assms] obtain zs where "[s] = map sigmoid zs" ..
  then obtain z where "s = sigmoid z" by (cases zs) auto
  then show ?thesis using sigmoid_bounds by simp
qed

lemma input_grad_of_forward:
  assumes "forward m x = Inr [s]"
  shows "\<exists>g. input_grad m x = Inr g"
  using assms
  unfolding forward_def input_grad_def bind_result_Inr_iff item_Inr_iff
  by auto

lemma length_linear_backward: "length (linear_backward l g) = in_features l"
  by (simp add: linear_backward_def)

lemma input_grad_length:
  assumes "input_grad m x = Inr g"
  shows "length g = length x"
proof -
  from assms have "length g = in_features (fc1 m)"
    unfolding input_grad_def bind_result_Inr_iff block_backward_def
    by (auto simp: length_linear_backward)
  moreover from assms have "length x = in_features (fc1 m)"
    unfolding input_grad_def hidden_block_def bind_result_Inr_iff linear_forward_def
    by (auto split: if_splits)
  ultimately show ?thesis by simp
qed

section \<open>The loaded model has the shape of its constructor\<close>

lemma load_linear_in_features:
  "load_linear n_in n_out s = Inr l \<Longrightarrow> in_features l = n_in"
  by (auto simp: load_linear_def split: prod.splits if_splits)

lemma BehavioralAuthNN_load_input_dim:
  assumes "BehavioralAuthNN_load input_dim hidden_dims sd = Inr m"
  shows "in_features (fc1 m) = input_dim"
proof -
  obtain h0 h1 h2 where h: "hidden_dims = (h0, h1, h2)" by (cases hidden_dims) auto
  from assms obtain l1 n1 l2 n2 l3 n3 lo where
    l1: "load_linear input_dim h0 (sd_fc1 sd) = Inr l1" and
    m: "m = \<lparr>fc1 = l1, bn1 = n1, fc2 = l2, bn2 = n2, fc3 = l3, bn3 = n3, fc_out = lo\<rparr>"
    unfolding BehavioralAuthNN_load_def h prod.case bind_result_Inr_iff by auto
  show ?thesis using load_linear_in_features [OF l1] m by simp
qed

lemma engine_init_input_dim:
  assumes "engine_init sd sc = Inr e"
  shows "in_features (fc1 (model e)) = 6"
proof -
  from assms obtain m where
    m: "BehavioralAuthNN_load default_input_dim default_hidden_dims sd = Inr m" and
    e: "model e = m"
    unfolding engine_init_def bind_result_Inr_iff by auto
  show ?thesis using BehavioralAuthNN_load_input_dim [OF m] e
    by (simp add: default_input_dim_def)
qed

lemma scaler_transform_length:
  "scaler_transform sc x = Inr y \<Longrightarrow> length y = length x"
  by (auto simp: scaler_transform_def split: if_splits)

section \<open>predict, step by step\<close>

lemma nan_path_fails:
  "bind_result a (\<lambda>x. bind_result (b x) (\<lambda>y. bind_result (c y) (\<lambda>_. Inl err))) \<noteq> Inr z"
  by (auto simp: bind_result_def split: sum.splits)

lemma predict_intro:
  assumes "feature_vector features = Inr pv"
    and "finite_values pv = Some v"
    and "(case scaler e of None \<Rightarrow> Inr v | Some sc \<Rightarrow> scaler_transform sc v) = Inr x"
    and "forward (model e) x = Inr [s]"
    and "(if anomaly_detector e \<noteq> None then calculate_anomaly_score e x else Inr 0) = Inr a"
    and "input_grad (model e) x = Inr g"
    and "fuse hp v (py_int (s * 100)) = Inr c"
  shows "predict e features hp t =
     Inr (\<lparr>confidence_score = c, anomaly_score = a,
           feature_importance = importance_of_gradient g\<rparr>,
          e\<lparr>stats := update_stats (stats e) c t\<rparr>)"
proof -
  from assms(1) obtain p where p: "process_features features = Inr p"
    "add_derived_features p = Inr pv"
    unfolding feature_vector_def bind_result_Inr_iff by blast
  show ?thesis
    unfolding predict_def p bind_result_Inr assms(2) option.case assms(3,4) Let_def
    using assms(5,6,7)
    by (simp add: item_def calculate_feature_importance_def fuse_def)
qed

lemma predict_elim:
  assumes "predict e features hp t = Inr (r, e')"
  shows "\<exists>pv v x s g a c.
        feature_vector features = Inr pv
        \<and> finite_values pv = Some v
        \<and> (case scaler e of None \<Rightarrow> Inr v | Some sc \<Rightarrow> scaler_transform sc v) = Inr x
        \<and> forward (model e) x = Inr [s]
        \<and> (if anomaly_detector e \<noteq> None then calculate_anomaly_score e x else Inr 0) = Inr a
        \<and> input_grad (model e) x = Inr g
        \<and> fuse hp v (py_int (s * 100)) = Inr c
        \<and> r = \<lparr>confidence_score = c, anomaly_score = a,
                 feature_importance = importance_of_gradient g\<rparr>
        \<and> e' = e\<lparr>stats := update_stats (stats e) c t\<rparr>"
proof -
  from assms obtain p pv where
    1: "process_features features = Inr p" and
    2: "add_derived_features p = Inr pv" and
    rest: "(case finite_values pv of
       None \<Rightarrow>
         bind_result (let zeros = map (\<lambda>_. 0) pv in
                      case scaler e of
                        None \<Rightarrow> Inr zeros
                      | Some sc \<Rightarrow> scaler_transform sc zeros) (\<lambda>feature_tensor.
         bind_result (forward (model e) feature_tensor) (\<lambda>confidence_logit.
         bind_result (item confidence_logit) (\<lambda>_. Inl ValueError)))
     | Some v \<Rightarrow>
     bind_result (case scaler e of
                    None \<Rightarrow> Inr v
                  | Some sc \<Rightarrow> scaler_transform sc v) (\<lambda>feature_tensor.
     bind_result (forward (model e) feature_tensor) (\<lambda>confidence_logit.
     bind_result (item (map (\<lambda>v. v * 100) confidence_logit)) (\<lambda>scaled.
     bind_result (if anomaly_detector e \<noteq> None
                  then calculate_anomaly_score e feature_tensor
                  else Inr 0) (\<lambda>anomaly_score.
     bind_result (calculate_feature_importance e feature_tensor) (\<lambda>feature_importance.
     bind_result (fuse hp v (py_int scaled)) (\<lambda>confidence_score.
     Inr (\<lparr>confidence_score = confidence_score, anomaly_score = anomaly_score,
           feature_importance = feature_importance\<rparr>,
          e\<lparr>stats := update_stats (stats e) confidence_score t\<rparr>)))))))) = Inr (r, e')"
    unfolding predict_def Let_def bind_result_Inr_iff fuse_def [symmetric]
    by (elim exE conjE) auto
  from rest obtain v where v: "finite_values pv = Some v"
    by (cases "finite_values pv") (simp_all add: nan_path_fails)
  from rest obtain x logit scaled a imp c where
    3: "(case scaler e of None \<Rightarrow> Inr v | Some sc \<Rightarrow> scaler_transform sc v) = Inr x" and
    4: "forward (model e) x = Inr logit" and
    5: "item (map (\<lambda>v. v * 100) logit) = Inr scaled" and
    6: "(if anomaly_detector e \<noteq> None then calculate_anomaly_score e x else Inr 0) = Inr a" and
    7: "calculate_feature_importance e x = Inr imp" and
    8: "fuse hp v (py_int scaled) = Inr c" and
    9: "r = \<lparr>confidence_score = c, anomaly_score = a, feature_importance = imp\<rparr>" and
    10: "e' = e\<lparr>stats := update_stats (stats e) c t\<rparr>"
    unfolding v option.case bind_result_Inr_iff
    by (elim exE conjE) auto
  from 5 obtain s where s: "logit = [s]" "scaled = s * 100"
    unfolding item_Inr_iff by (auto simp: map_eq_Cons_conv)
  from 7 obtain g where g: "input_grad (model e) x = Inr g" "imp = importance_of_gradient g"
    unfolding calculate_feature_importance_def bind_result_Inr_iff by auto
  have fv: "feature_vector features = Inr pv"
    by (simp add: feature_vector_def 1 2)
  show ?thesis
    using fv v 3 4 6 8 9 10 s g by blast
qed

lemma finite_values_length: "finite_values pv = Some v \<Longrightarrow> length v = length pv"
proof (induction pv arbitrary: v)
  case Nil
  then show ?case by simp
next
  case (Cons a pv)
  then show ?case by (cases a) auto
qed

text \<open>The tensor given to the model has 7 entries.\<close>

lemma feature_tensor_length:
  assumes "feature_vector features = Inr pv"
    and "finite_values pv = Some v"
    and "(case scaler e of None \<Rightarrow> Inr v | Some sc \<Rightarrow> scaler_transform sc v) = Inr x"
  shows "length x = 7"
  using assms(3) feature_vector_length [OF assms(1)] finite_values_length [OF assms(2)]
  by (auto split: option.splits dest: scaler_transform_length)

lemma predict_fails_on_other_input_dim:
  assumes "in_features (fc1 (model e)) \<noteq> 7"
  shows "\<exists>err. predict e features hp t = Inl err"
proof (cases "predict e features hp t")
  case (Inl err)
  then show ?thesis by blast
next
  case (Inr p)
  obtain r e' where "p = (r, e')" by (cases p) auto
  with Inr have "predict e features hp t = Inr (r, e')" by simp
  from predict_elim [OF this] obtain pv v x s where
    pv: "feature_vector features = Inr pv" and
    v: "finite_values pv = Some v" and
    x: "(case scaler e of None \<Rightarrow> Inr v | Some sc \<Rightarrow> scaler_transform sc v) = Inr x" and
    s: "forward (model e) x = Inr [s]" by blast
  from feature_tensor_length [OF pv v x] forward_Inr_length [OF s] assms
  show ?thesis by simp
qed

section \<open>The sample models\<close>

lemma sum_list_map2_zero_left:
  "sum_list (map2 (*) (replicate n (0::real)) x) = 0"
proof (induction x arbitrary: n)
  case Nil
  then show ?case by simp
next
  case (Cons a x)
  then show ?case by (cases n) simp_all
qed

lemma dot_zero_left: "dot (replicate n 0) x = 0"
  by (simp add: dot_def sum_list_map2_zero_left)

lemma map2_replicate_right:
  "length x = n \<Longrightarrow> map2 f x (replicate n c) = map (\<lambda>v. f v c) x"
proof (induction x arbitrary: n)
  case Nil
  then show ?case by simp
next
  case (Cons a x)
  then show ?case by (cases n) simp_all
qed

lemma linear_forward_constant:
  "linear_forward (constant_linear n m b) x =
     (if length x \<noteq> n then Inl ShapeMismatch else Inr (replicate m b))"
  by (simp add: linear_forward_def constant_linear_def dot_zero_left)

lemma bn_scale_identity: "bn_scale (identity_batch_norm n) = replicate n 1"
  by (simp add: bn_scale_def identity_batch_norm_def)

lemma batch_norm_identity:
  "length x = n \<Longrightarrow> batch_norm_eval (identity_batch_norm n) x = Inr x"
  unfolding batch_norm_eval_def bn_scale_identity
  by (simp add: identity_batch_norm_def map2_replicate_right)

lemma hidden_block_constant:
  "hidden_block (constant_linear n m 0) (identity_batch_norm m) x =
     (if length x \<noteq> n then Inl ShapeMismatch else Inr (replicate m 0))"
  by (simp add: hidden_block_def linear_forward_constant batch_norm_identity)

lemma relu_zero [simp]: "relu 0 = 0"
  by (simp add: relu_def)

lemma forward_constant_model:
  "forward (constant_model n hds b) x =
     (if length x \<noteq> n then Inl ShapeMismatch else Inr [sigmoid b])"
  by (cases hds)
     (simp add: forward_def constant_model_def hidden_block_constant linear_forward_constant)

lemma linear_backward_constant:
  "linear_backward (constant_linear n m b) g = replicate n 0"
proof -
  have "map (\<lambda>j. dot (map (\<lambda>row. row ! j) (replicate m (replicate n 0))) g) [0..<n]
        = map (\<lambda>j. 0) [0..<n]"
    by (rule map_cong) (simp_all add: dot_zero_left)
  then show ?thesis
    by (simp add: linear_backward_def constant_linear_def map_replicate_const)
qed

lemma input_grad_constant_model:
  "input_grad (constant_model n hds b) x =
     (if length x \<noteq> n then Inl ShapeMismatch else Inr (replicate n 0))"
  by (cases hds)
     (simp add: input_grad_def constant_model_def hidden_block_constant
        linear_forward_constant item_def block_backward_def linear_backward_constant)

lemma load_constant_model:
  "BehavioralAuthNN_load n hds (state_dict_of (constant_model n hds b)) = Inr (constant_model n hds b)"
  by (cases hds)
     (simp add: BehavioralAuthNN_load_def state_dict_of_def constant_model_def
        load_linear_def load_batch_norm_def linear_state_of_def bn_state_of_def
        constant_linear_def identity_batch_norm_def list_all_iff)

lemma engine_init_constant:
  "engine_init (state_dict_of (constant_model default_input_dim default_hidden_dims b)) None
     = Inr (constant_engine default_input_dim b)"
  by (simp add: engine_init_def load_constant_model constant_engine_def engine_of_def
        fresh_stats_def)

lemma sigmoid_ln2: "sigmoid (ln 2) = 2 / 3"
  by (simp add: sigmoid_def exp_minus)

lemma sigmoid_zero: "sigmoid 0 = 1 / 2"
  by (simp add: sigmoid_def)

lemma importance_zero_gradient:
  "importance_of_gradient (replicate 7 0) = zip feature_names (replicate 7 0)"
  by (simp add: importance_of_gradient_def Let_def)

lemma predict_constant_engine:
  assumes "feature_vector f = Inr pv"
    and "finite_values pv = Some v"
    and "fuse hp v (py_int (sigmoid b * 100)) = Inr c"
  shows "predict (constant_engine 7 b) f hp t =
     Inr (\<lparr>confidence_score = c, anomaly_score = 0,
           feature_importance = zip feature_names (replicate 7 0)\<rparr>,
          (constant_engine 7 b)\<lparr>stats := update_stats fresh_stats c t\<rparr>)"
proof -
  have len: "length v = 7"
    using feature_vector_length [OF assms(1)] finite_values_length [OF assms(2)] by simp
  have "predict (constant_engine 7 b) f hp t =
     Inr (\<lparr>confidence_score = c, anomaly_score = 0,
           feature_importance = importance_of_gradient (replicate 7 0)\<rparr>,
          (constant_engine 7 b)\<lparr>stats := update_stats (stats (constant_engine 7 b)) c t\<rparr>)"
    by (rule predict_intro [where pv = pv and v = v and x = v and s = "sigmoid b"])
       (simp_all add: assms constant_engine_def engine_of_def forward_constant_model
          input_grad_constant_model len)
  then show ?thesis
    by (simp add: importance_zero_gradient constant_engine_def engine_of_def)
qed


section \<open>Historical comparison\<close>

lemma historical_loop_single:
  "feature_vector p = Inr w \<Longrightarrow> historical_loop [p] [] = Inr [w]"
  by (auto simp: feature_vector_def bind_result_Inr_iff)

lemma np_mean_axis0_single: "np_mean_axis0 [v] = v"
  by (simp add: np_mean_axis0_def map_nth)

lemma norm_self: "np_linalg_norm (map2 (-) v v) = 0"
proof -
  have "sum_list (map (\<lambda>c. c\<^sup>2) (map2 (-) v v)) = (0::real)"
    by (induction v) simp_all
  then show ?thesis by (simp add: np_linalg_norm_def)
qed

lemma compare_with_equal_pattern:
  assumes "feature_vector p = Inr pv" and "finite_values pv = Some v"
  shows "compare_with_historical v [p] = Inr 100"
  unfolding compare_with_historical_def historical_loop_single [OF assms(1)]
  by (simp add: assms(2) np_mean_axis0_single norm_self)




lemma py_int_nonneg: "0 \<le> x \<Longrightarrow> py_int x = \<lfloor>x\<rfloor>"
  by (simp add: py_int_def)

lemma model_confidence_range:
  assumes "0 < s" "s < 1"
  shows "py_int (s * 100) = \<lfloor>s * 100\<rfloor> \<and> 0 \<le> py_int (s * 100) \<and> py_int (s * 100) \<le> 99"
proof -
  have 1: "py_int (s * 100) = \<lfloor>s * 100\<rfloor>" using assms by (simp add: py_int_def)
  have 2: "0 \<le> \<lfloor>s * 100\<rfloor>" using assms by simp
  have "s * 100 < 100" using assms by simp
  then have "\<lfloor>s * 100\<rfloor> < 100" by (simp add: floor_less_iff)
  with 1 2 show ?thesis by simp
qed

section \<open>Evaluating \<open>predict\<close> on the sample engines\<close>

lemma fuse_no_history [simp]: "fuse None v c = Inr c" "fuse (Some []) v c = Inr c"
  by (simp_all add: fuse_def truthy_def)

lemma truthy_simps: "truthy None = False" "truthy (Some []) = False"
  by (simp_all add: truthy_def)

lemma predict_no_history: "predict e features None t = predict e features (Some []) t"
  unfolding predict_def truthy_simps if_False by (rule refl)

lemma fuse_history:
  "hs \<noteq> [] \<Longrightarrow> fuse (Some hs) v c =
     bind_result (compare_with_historical v hs) (\<lambda>h.
       Inr (py_int (real_of_int c * 0.7 + h * 0.3)))"
  by (simp add: fuse_def truthy_def)

lemma finite_values_example [simp]:
  "finite_values [Finite a, Finite b, Finite c, Finite d, Finite e, Finite f, Finite g] =
     Some [a, b, c, d, e, f, g]"
  by simp

lemma predict_shape_mismatch:
  assumes "feature_vector features = Inr pv"
    and "finite_values pv = Some v"
    and "scaler e = None"
    and "in_features (fc1 (model e)) \<noteq> 7"
  shows "predict e features hp t = Inl ShapeMismatch"
proof -
  from assms(1) obtain p where p: "process_features features = Inr p"
    "add_derived_features p = Inr pv"
    unfolding feature_vector_def bind_result_Inr_iff by blast
  have "length v = 7"
    using feature_vector_length [OF assms(1)] finite_values_length [OF assms(2)] by simp
  with assms(4) have "forward (model e) v = Inl ShapeMismatch"
    by (intro forward_wrong_length) simp
  then show ?thesis
    unfolding predict_def p bind_result_Inr assms(2) option.case assms(3)
    by simp
qed

lemma predict_constant_example:
  assumes "fuse hp [65, 120, 85, 3, 14, 65 / 4, 120 / 86] (py_int (sigmoid b * 100)) = Inr c"
  shows "predict (constant_engine 7 b) example_features hp t =
     Inr (\<lparr>confidence_score = c, anomaly_score = 0,
           feature_importance = zip feature_names (replicate 7 0)\<rparr>,
          (constant_engine 7 b)\<lparr>stats := update_stats fresh_stats c t\<rparr>)"
  by (rule predict_constant_engine [OF feature_vector_example _ assms]) simp

lemma py_int_two_thirds: "py_int (sigmoid (ln 2) * 100) = 66"
  by (simp add: sigmoid_ln2 py_int_def)

lemma py_int_half: "py_int (sigmoid 0 * 100) = 50"
  by (simp add: sigmoid_zero py_int_def)

lemma rint_examples:
  "rint (2 / 3 * 100) = 67" "rint (66 * 0.7 + 50 * 0.3) = 61" "rint (50 * 0.7 + 99 * 0.3) = 65"
  by (simp_all add: rint_def Let_def)

section \<open>The model of the engine\<close>

text \<open>
  Claim C1, as the code has it. \<open>__init__\<close> builds the model with the defaults of its
  constructor, so the first layer of every engine takes 6 inputs, while \<open>predict\<close> gives
  the model the 7 entries of the feature vector: every call of \<open>predict\<close> raises, and
  without a scaler the exception on a vector of finite numbers is the shape error of the
  first layer.
\<close>

theorem engine_init_predict_raises:
  assumes "engine_init sd sc = Inr e"
  shows "in_features (fc1 (model e)) = 6
         \<and> (\<exists>err. predict e features hp t = Inl err)
         \<and> (sc = None \<longrightarrow>
              (\<forall>pv v. feature_vector features = Inr pv \<longrightarrow> finite_values pv = Some v \<longrightarrow>
                 length v = 7 \<and> forward (model e) v = Inl ShapeMismatch
                 \<and> predict e features hp t = Inl ShapeMismatch))"
proof (intro conjI impI allI)
  show 6: "in_features (fc1 (model e)) = 6" by (rule engine_init_input_dim [OF assms])
  then have n7: "in_features (fc1 (model e)) \<noteq> 7" by simp
  show "\<exists>err. predict e features hp t = Inl err"
    by (rule predict_fails_on_other_input_dim [OF n7])
  fix pv v
  assume none: "sc = None" and pv: "feature_vector features = Inr pv"
    and v: "finite_values pv = Some v"
  from assms have sc: "scaler e = sc"
    unfolding engine_init_def bind_result_Inr_iff by auto
  show len: "length v = 7"
    using feature_vector_length [OF pv] finite_values_length [OF v] by simp
  show "forward (model e) v = Inl ShapeMismatch"
    using len 6 by (intro forward_wrong_length) simp
  show "predict e features hp t = Inl ShapeMismatch"
    using sc none by (intro predict_shape_mismatch [OF pv v _ n7]) simp
qed

theorem engine_init_predict_raises_witness:
  "engine_init (state_dict_of (constant_model 6 (128, 64, 32) 0)) None =
     Inr (constant_engine 6 0)
   \<and> forward (model (constant_engine 6 0)) [65, 120, 85, 3, 14, 65 / 4, 120 / 86] =
       Inl ShapeMismatch
   \<and> predict (constant_engine 6 0) example_features None 0 = Inl ShapeMismatch"
proof -
  have i: "engine_init (state_dict_of (constant_model 6 (128, 64, 32) 0)) None =
     Inr (constant_engine 6 0)"
    using engine_init_constant [of 0] by (simp add: default_input_dim_def default_hidden_dims_def)
  from engine_init_predict_raises [OF i, of example_features None 0]
    feature_vector_example
  show ?thesis using i by simp
qed

section \<open>Confidence without history\<close>

text \<open>
  Claim C2, as the code has it. Without history the confidence is \<open>int(score * 100)\<close>, the
  score of the model times 100 cut to its integer part (not rounded), for the score \<open>s\<close>
  that the model gives on the scaled feature vector; it is an integer from 0 to 100.
\<close>

theorem confidence_is_truncated_score:
  assumes "predict e features None t = Inr (r, e')"
  shows "\<exists>pv v x s.
           feature_vector features = Inr pv \<and> finite_values pv = Some v
           \<and> (case scaler e of None \<Rightarrow> Inr v | Some sc \<Rightarrow> scaler_transform sc v) = Inr x
           \<and> forward (model e) x = Inr [s]
           \<and> 0 \<le> s \<and> s \<le> 1
           \<and> confidence_score r = \<lfloor>s * 100\<rfloor>
           \<and> 0 \<le> confidence_score r \<and> confidence_score r \<le> 100"
proof -
  from predict_elim [OF assms] obtain pv v x s g a c where
    pv: "feature_vector features = Inr pv" and v: "finite_values pv = Some v" and
    x: "(case scaler e of None \<Rightarrow> Inr v | Some sc \<Rightarrow> scaler_transform sc v) = Inr x" and
    s: "forward (model e) x = Inr [s]" and
    c: "fuse None v (py_int (s * 100)) = Inr c" and
    r: "r = \<lparr>confidence_score = c, anomaly_score = a,
              feature_importance = importance_of_gradient g\<rparr>"
    by blast
  from forward_single [OF s] have b: "0 < s" "s < 1" by simp_all
  from c r have "confidence_score r = py_int (s * 100)" by simp
  with model_confidence_range [OF b] b pv v x s show ?thesis
    by (intro exI [of _ pv] exI [of _ v] exI [of _ x] exI [of _ s]) simp
qed

theorem confidence_is_truncated_score_witness:
  "\<exists>s. forward (model (constant_engine 7 (ln 2))) [65, 120, 85, 3, 14, 65 / 4, 120 / 86] = Inr [s]
      \<and> \<lfloor>s * 100\<rfloor> = 66"
proof -
  have "predict (constant_engine 7 (ln 2)) example_features None 0 =
     Inr (\<lparr>confidence_score = 66, anomaly_score = 0,
           feature_importance = zip feature_names (replicate 7 0)\<rparr>,
          (constant_engine 7 (ln 2))\<lparr>stats := update_stats fresh_stats 66 0\<rparr>)"
    by (rule predict_constant_example) (simp add: py_int_two_thirds)
  from confidence_is_truncated_score [OF this] show ?thesis
    by (auto simp: feature_vector_example constant_engine_def engine_of_def)
qed

text \<open>
  Claim C2 as stated fails: a model score of 2/3 gives the confidence 66, while
  \<open>round(score * 100)\<close> is 67.
\<close>

theorem confidence_is_not_rounded_score:
  "forward (model (constant_engine 7 (ln 2))) [65, 120, 85, 3, 14, 65 / 4, 120 / 86] =
     Inr [2 / 3]
   \<and> predict (constant_engine 7 (ln 2)) example_features None 0 =
     Inr (\<lparr>confidence_score = 66, anomaly_score = 0,
           feature_importance = zip feature_names (replicate 7 0)\<rparr>,
          (constant_engine 7 (ln 2))\<lparr>stats := update_stats fresh_stats 66 0\<rparr>)
   \<and> rint (2 / 3 * 100) = 67"
proof -
  have 1: "forward (model (constant_engine 7 (ln 2))) [65, 120, 85, 3, 14, 65 / 4, 120 / 86] =
     Inr [2 / 3]"
    by (simp add: constant_engine_def engine_of_def forward_constant_model sigmoid_ln2)
  have 2: "predict (constant_engine 7 (ln 2)) example_features None 0 =
     Inr (\<lparr>confidence_score = 66, anomaly_score = 0,
           feature_importance = zip feature_names (replicate 7 0)\<rparr>,
          (constant_engine 7 (ln 2))\<lparr>stats := update_stats fresh_stats 66 0\<rparr>)"
    by (rule predict_constant_example) (simp add: py_int_two_thirds)
  from 1 2 rint_examples(1) show ?thesis by simp
qed

text \<open>
  Claim C4, as the code has it. \<open>predict\<close> with \<open>history = None\<close> and with the empty list
  return the same result, and in both cases there is no fusion: the neutral value 50 is
  not used, the confidence is the confidence of the model, \<open>int(score * 100)\<close>.
\<close>

theorem no_history_means_no_fusion:
  "predict e features None t = predict e features (Some []) t
   \<and> (\<forall>r e'. predict e features (Some []) t = Inr (r, e') \<longrightarrow>
        (\<exists>pv v x s.
           feature_vector features = Inr pv \<and> finite_values pv = Some v
           \<and> (case scaler e of None \<Rightarrow> Inr v | Some sc \<Rightarrow> scaler_transform sc v) = Inr x
           \<and> forward (model e) x = Inr [s]
           \<and> confidence_score r = \<lfloor>s * 100\<rfloor>))"
proof (intro conjI allI impI)
  show "predict e features None t = predict e features (Some []) t"
    by (rule predict_no_history)
  fix r e'
  assume "predict e features (Some []) t = Inr (r, e')"
  from predict_elim [OF this] obtain pv v x s g a c where
    pv: "feature_vector features = Inr pv" and v: "finite_values pv = Some v" and
    x: "(case scaler e of None \<Rightarrow> Inr v | Some sc \<Rightarrow> scaler_transform sc v) = Inr x" and
    s: "forward (model e) x = Inr [s]" and
    c: "fuse (Some []) v (py_int (s * 100)) = Inr c" and
    r: "r = \<lparr>confidence_score = c, anomaly_score = a,
              feature_importance = importance_of_gradient g\<rparr>"
    by blast
  from forward_single [OF s] have b: "0 < s" "s < 1" by simp_all
  from c r have "confidence_score r = py_int (s * 100)" by simp
  with model_confidence_range [OF b] pv v x s
  show "\<exists>pv v x s.
           feature_vector features = Inr pv \<and> finite_values pv = Some v
           \<and> (case scaler e of None \<Rightarrow> Inr v | Some sc \<Rightarrow> scaler_transform sc v) = Inr x
           \<and> forward (model e) x = Inr [s]
           \<and> confidence_score r = \<lfloor>s * 100\<rfloor>"
    by (intro exI [of _ pv] exI [of _ v] exI [of _ x] exI [of _ s]) simp
qed

theorem no_history_means_no_fusion_witness:
  "predict (constant_engine 7 0) example_features None 0 =
     predict (constant_engine 7 0) example_features (Some []) 0
   \<and> (\<exists>s. forward (model (constant_engine 7 0)) [65, 120, 85, 3, 14, 65 / 4, 120 / 86] = Inr [s]
      \<and> \<lfloor>s * 100\<rfloor> = 50)"
proof -
  have "predict (constant_engine 7 0) example_features (Some []) 0 =
     Inr (\<lparr>confidence_score = 50, anomaly_score = 0,
           feature_importance = zip feature_names (replicate 7 0)\<rparr>,
          (constant_engine 7 0)\<lparr>stats := update_stats fresh_stats 50 0\<rparr>)"
    by (rule predict_constant_example) (simp add: py_int_half)
  with no_history_means_no_fusion [of "constant_engine 7 0" example_features 0]
  show ?thesis
    by (auto simp: feature_vector_example constant_engine_def engine_of_def)
qed

text \<open>
  Claim C4 as stated fails: with the empty history a model confidence of 66 is returned
  as 66, while the fusion formula with the neutral value 50 gives
  \<open>round(66 * 0.7 + 50 * 0.3) = 61\<close>.
\<close>

theorem empty_history_is_not_fused_with_50:
  "predict (constant_engine 7 (ln 2)) example_features (Some []) 0 =
     Inr (\<lparr>confidence_score = 66, anomaly_score = 0,
           feature_importance = zip feature_names (replicate 7 0)\<rparr>,
          (constant_engine 7 (ln 2))\<lparr>stats := update_stats fresh_stats 66 0\<rparr>)
   \<and> predict (constant_engine 7 (ln 2)) example_features None 0 =
     predict (constant_engine 7 (ln 2)) example_features (Some []) 0
   \<and> rint (66 * 0.7 + 50 * 0.3) = 61"
proof -
  have 1: "predict (constant_engine 7 (ln 2)) example_features (Some []) 0 =
     Inr (\<lparr>confidence_score = 66, anomaly_score = 0,
           feature_importance = zip feature_names (replicate 7 0)\<rparr>,
          (constant_engine 7 (ln 2))\<lparr>stats := update_stats fresh_stats 66 0\<rparr>)"
    by (rule predict_constant_example) (simp add: py_int_two_thirds)
  have 2: "predict (constant_engine 7 (ln 2)) example_features None 0 =
     predict (constant_engine 7 (ln 2)) example_features (Some []) 0"
    by (rule predict_no_history)
  from 1 2 rint_examples(2) show ?thesis by simp
qed

section \<open>Fusion with the history\<close>

lemma py_int_fused:
  assumes "0 \<le> c" "0 \<le> h"
  shows "py_int (real_of_int c * 0.7 + h * 0.3) = \<lfloor>real_of_int c * 0.7 + h * 0.3\<rfloor>"
proof -
  have "0 \<le> real_of_int c * 0.7 + h * 0.3" using assms by simp
  then show ?thesis by (rule py_int_nonneg)
qed


lemma calculate_anomaly_score_cong:
  "anomaly_detector e1 = anomaly_detector e \<Longrightarrow>
     calculate_anomaly_score e1 x = calculate_anomaly_score e x"
  by (simp add: calculate_anomaly_score_def)

lemma predict_with_identical_pattern:
  assumes "predict e features None t = Inr (r0, e0)"
    and "model e1 = model e" "scaler e1 = scaler e" "anomaly_detector e1 = anomaly_detector e"
  shows "predict e1 features (Some [features]) t1 =
           Inr (r0\<lparr>confidence_score := \<lfloor>real_of_int (confidence_score r0) * 0.7 + 100 * 0.3\<rfloor>\<rparr>,
                e1\<lparr>stats := update_stats (stats e1)
                      \<lfloor>real_of_int (confidence_score r0) * 0.7 + 100 * 0.3\<rfloor> t1\<rparr>)
         \<and> 0 \<le> confidence_score r0 \<and> confidence_score r0 \<le> 100
         \<and> (\<exists>pv v. feature_vector features = Inr pv \<and> finite_values pv = Some v
               \<and> compare_with_historical v [features] = Inr 100)"
proof -
  from predict_elim [OF assms(1)] obtain pv v x s g a c where
    pv: "feature_vector features = Inr pv" and v: "finite_values pv = Some v" and
    x: "(case scaler e of None \<Rightarrow> Inr v | Some sc \<Rightarrow> scaler_transform sc v) = Inr x" and
    s: "forward (model e) x = Inr [s]" and
    a: "(if anomaly_detector e \<noteq> None then calculate_anomaly_score e x else Inr 0) = Inr a" and
    g: "input_grad (model e) x = Inr g" and
    c: "fuse None v (py_int (s * 100)) = Inr c" and
    r: "r0 = \<lparr>confidence_score = c, anomaly_score = a,
               feature_importance = importance_of_gradient g\<rparr>"
    by blast
  from forward_single [OF s] have b: "0 < s" "s < 1" by simp_all
  from c have c': "c = py_int (s * 100)" by simp
  with model_confidence_range [OF b] b have range: "0 \<le> c" "c \<le> 99" by simp_all
  have h: "compare_with_historical v [features] = Inr 100"
    by (rule compare_with_equal_pattern [OF pv v])
  have f: "fuse (Some [features]) v (py_int (s * 100)) =
             Inr \<lfloor>real_of_int c * 0.7 + 100 * 0.3\<rfloor>"
    using range py_int_fused [of c 100] by (simp add: fuse_history h c')
  have "predict e1 features (Some [features]) t1 =
     Inr (\<lparr>confidence_score = \<lfloor>real_of_int c * 0.7 + 100 * 0.3\<rfloor>, anomaly_score = a,
           feature_importance = importance_of_gradient g\<rparr>,
          e1\<lparr>stats := update_stats (stats e1) \<lfloor>real_of_int c * 0.7 + 100 * 0.3\<rfloor> t1\<rparr>)"
  proof -
    have x1: "(case scaler e1 of None \<Rightarrow> Inr v | Some sc \<Rightarrow> scaler_transform sc v) = Inr x"
      unfolding assms(3) by (rule x)
    have s1: "forward (model e1) x = Inr [s]"
      unfolding assms(2) by (rule s)
    have a1: "(if anomaly_detector e1 \<noteq> None then calculate_anomaly_score e1 x else Inr 0)
                = Inr a"
      unfolding calculate_anomaly_score_cong [OF assms(4)] assms(4) by (rule a)
    have g1: "input_grad (model e1) x = Inr g"
      unfolding assms(2) by (rule g)
    show ?thesis by (rule predict_intro [OF pv v x1 s1 a1 g1 f])
  qed
  with r range pv v h show ?thesis by auto
qed

lemma fused_with_100_not_lower:
  assumes "c \<le> 100"
  shows "c \<le> \<lfloor>real_of_int c * 0.7 + 100 * 0.3\<rfloor>"
proof -
  have "real_of_int c \<le> 100" using assms by simp
  then have "real_of_int c \<le> real_of_int c * 0.7 + 100 * 0.3" by simp
  then show ?thesis by (simp only: le_floor_iff)
qed




text \<open>
  Claim C5. When \<open>predict\<close> without history returns the confidence \<open>c\<close> (always at most
  100), \<open>predict\<close> on the same features with the single historical pattern equal to them
  returns too, on the engine as it was and on the engine after the first call: the
  consistency score is 100, the confidence is \<open>int(c * 0.7 + 100 * 0.3)\<close>, and this is
  greater than or equal to \<open>c\<close>.
\<close>

theorem identical_history_does_not_lower_confidence:
  assumes "predict e features None t = Inr (r0, e0)"
  shows "\<exists>r1 e1 r2 e2 pv v.
           predict e features (Some [features]) t1 = Inr (r1, e1)
           \<and> predict e0 features (Some [features]) t1 = Inr (r2, e2)
           \<and> feature_vector features = Inr pv \<and> finite_values pv = Some v
           \<and> compare_with_historical v [features] = Inr 100
           \<and> confidence_score r1 = \<lfloor>real_of_int (confidence_score r0) * 0.7 + 100 * 0.3\<rfloor>
           \<and> confidence_score r2 = confidence_score r1
           \<and> confidence_score r0 \<le> confidence_score r1"
proof -
  from predict_elim [OF assms] have e0: "e0 = e\<lparr>stats := update_stats (stats e) (confidence_score r0) t\<rparr>"
    by auto
  note 1 = predict_with_identical_pattern [OF assms, of e t1]
  note 2 = predict_with_identical_pattern [OF assms, of e0 t1]
  from 1 obtain pv v where pv: "feature_vector features = Inr pv" "finite_values pv = Some v"
    "compare_with_historical v [features] = Inr 100" by auto
  from 1 have le: "confidence_score r0 \<le> 100" by simp
  show ?thesis
    using 1 2 pv fused_with_100_not_lower [OF le]
    by (simp add: e0)
qed

theorem identical_history_does_not_lower_confidence_witness:
  "\<exists>r1 e1. predict (constant_engine 7 (ln 2)) example_features (Some [example_features]) 0 =
       Inr (r1, e1)
     \<and> confidence_score r1 = 76 \<and> (66::int) \<le> confidence_score r1"
proof -
  have "predict (constant_engine 7 (ln 2)) example_features None 0 =
     Inr (\<lparr>confidence_score = 66, anomaly_score = 0,
           feature_importance = zip feature_names (replicate 7 0)\<rparr>,
          (constant_engine 7 (ln 2))\<lparr>stats := update_stats fresh_stats 66 0\<rparr>)"
    by (rule predict_constant_example) (simp add: py_int_two_thirds)
  from identical_history_does_not_lower_confidence [OF this, of 0] show ?thesis
    by auto
qed

section \<open>Anomaly score\<close>

text \<open>
  Claim C10. \<open>__init__\<close> sets no anomaly detector and \<open>predict\<close> leaves the field as it
  is, so the engine never has one; and when there is none, the anomaly score of every
  result of \<open>predict\<close> is exactly 0.
\<close>

theorem anomaly_score_is_zero:
  "(\<forall>e0. engine_init sd sc = Inr e0 \<longrightarrow> anomaly_detector e0 = None)
   \<and> (\<forall>r e'. predict e features hp t = Inr (r, e') \<longrightarrow>
        anomaly_detector e' = anomaly_detector e
        \<and> (anomaly_detector e = None \<longrightarrow> anomaly_score r = 0))
   \<and> (anomaly_detector e = None \<longrightarrow> calculate_anomaly_score e x = Inr 0)"
proof (intro conjI allI impI)
  fix e0 assume "engine_init sd sc = Inr e0"
  then show "anomaly_detector e0 = None"
    unfolding engine_init_def bind_result_Inr_iff by auto
next
  fix r e'
  assume "predict e features hp t = Inr (r, e')"
  from predict_elim [OF this] obtain x a c g where
    a: "(if anomaly_detector e \<noteq> None then calculate_anomaly_score e x else Inr 0) = Inr a" and
    r: "r = \<lparr>confidence_score = c, anomaly_score = a,
              feature_importance = importance_of_gradient g\<rparr>" and
    e': "e' = e\<lparr>stats := update_stats (stats e) c t\<rparr>"
    by blast
  from e' show "anomaly_detector e' = anomaly_detector e" by simp
  assume "anomaly_detector e = None"
  with a r show "anomaly_score r = 0" by simp
next
  assume "anomaly_detector e = None"
  then show "calculate_anomaly_score e x = Inr 0"
    by (simp add: calculate_anomaly_score_def)
qed

theorem anomaly_score_is_zero_witness:
  "anomaly_detector (constant_engine 6 0) = None
   \<and> (\<exists>r e'. predict (constant_engine 7 0) example_features None 0 = Inr (r, e')
        \<and> anomaly_score r = 0 \<and> anomaly_detector e' = None)"
proof -
  have i: "engine_init (state_dict_of (constant_model 6 (128, 64, 32) 0)) None =
     Inr (constant_engine 6 0)"
    using engine_init_constant [of 0] by (simp add: default_input_dim_def default_hidden_dims_def)
  have p: "predict (constant_engine 7 0) example_features None 0 =
     Inr (\<lparr>confidence_score = 50, anomaly_score = 0,
           feature_importance = zip feature_names (replicate 7 0)\<rparr>,
          (constant_engine 7 0)\<lparr>stats := update_stats fresh_stats 50 0\<rparr>)"
    by (rule predict_constant_example) (simp add: py_int_half)
  have n: "anomaly_detector (constant_engine 7 0) = None"
    by (simp add: constant_engine_def engine_of_def)
  from anomaly_score_is_zero
    [of "state_dict_of (constant_model 6 (128, 64, 32) 0)" None "constant_engine 7 0"
        example_features None 0 "[]"]
    i p n
  show ?thesis by simp
qed

section \<open>Feature importance\<close>

lemma sum_list_abs_pos:
  fixes g :: "real list"
  shows "0 < sum_list (map abs g) \<longleftrightarrow> (\<exists>d\<in>set g. d \<noteq> 0)"
proof (induction g)
  case Nil
  then show ?case by simp
next
  case (Cons a g)
  have "0 \<le> sum_list (map abs g)" by (rule sum_list_nonneg) auto
  with Cons show ?case by (cases "a = 0") auto
qed

lemma sum_list_divide:
  fixes g :: "real list" and f :: "real \<Rightarrow> real"
  shows "sum_list (map (\<lambda>d. f d / c) g) = sum_list (map f g) / c"
  by (induction g) (simp_all add: add_divide_distrib)

lemma all_zero_replicate:
  fixes g :: "real list"
  assumes "\<not> (\<exists>d\<in>set g. d \<noteq> 0)"
  shows "map abs g = replicate (length g) 0"
  using assms by (induction g) simp_all

lemma importance_of_gradient_names:
  assumes "length g = 7"
  shows "map fst (importance_of_gradient g) = feature_names"
    and "map snd (importance_of_gradient g) =
           (if 0 < sum_list (map abs g) then map (\<lambda>d. \<bar>d\<bar> / sum_list (map abs g)) g
            else map abs g)"
  using assms by (simp_all add: importance_of_gradient_def Let_def feature_names_def o_def)

lemma first_feature_forward:
  assumes "0 < a"
  shows "hidden_block (fc1 first_feature_model) (bn1 first_feature_model) [a, b, c, d, e, f, g]
           = Inr [a]"
    and "hidden_block (fc2 first_feature_model) (bn2 first_feature_model) [a] = Inr [a]"
    and "hidden_block (fc3 first_feature_model) (bn3 first_feature_model) [a] = Inr [a]"
    and "linear_forward (fc_out first_feature_model) [a] = Inr [a]"
  by (simp_all add: first_feature_model_def hidden_block_def linear_forward_def dot_def
        batch_norm_identity)

lemma relu_pos: "0 < a \<Longrightarrow> relu a = a"
  by (simp add: relu_def)

lemma upt_7: "[0..<7] = [0, 1, 2, 3, 4, 5, 6]"
  by (simp add: upt_rec)

lemma first_feature_input_grad:
  assumes "0 < a"
  shows "input_grad first_feature_model [a, b, c, d, e, f, g] =
     Inr [sigmoid a * (1 - sigmoid a), 0, 0, 0, 0, 0, 0]"
proof -
  have bw1: "\<And>y. linear_backward (fc_out first_feature_model) [y] = [y]"
    by (simp add: linear_backward_def first_feature_model_def dot_def)
  have bw2: "\<And>y. block_backward (fc3 first_feature_model) (bn3 first_feature_model) [a] [y] = [y]"
    "\<And>y. block_backward (fc2 first_feature_model) (bn2 first_feature_model) [a] [y] = [y]"
    using assms
    by (simp_all add: block_backward_def relu_backward_def linear_backward_def
          first_feature_model_def dot_def bn_scale_identity)
  have bw3: "\<And>y. block_backward (fc1 first_feature_model) (bn1 first_feature_model) [a] [y] =
                [y, 0, 0, 0, 0, 0, 0]"
    using assms
    by (simp add: block_backward_def relu_backward_def linear_backward_def
          first_feature_model_def dot_def bn_scale_identity upt_7)
  show ?thesis
    unfolding input_grad_def first_feature_forward [OF assms] bind_result_Inr list.map
      relu_pos [OF assms]
    by (simp add: item_def bw1 bw2 bw3)
qed

text \<open>
  Claim C8. The importances that \<open>_calculate_feature_importance\<close> returns for a feature
  tensor of 7 entries (\<open>predict\<close> always gives it such a tensor) are paired with the 7 fixed
  names in the order of the vector. With \<open>g\<close> the gradient of the output of the model with
  respect to the input: when some entry of \<open>g\<close> is not zero the values are
  \<open>\<bar>g\<^sub>i\<bar> / \<Sum>\<bar>g\<bar>\<close> and sum to 1; otherwise they are all zero, and nothing is divided.
\<close>

theorem feature_importance_normalized:
  "(\<forall>imp. calculate_feature_importance e x = Inr imp \<longrightarrow> length x = 7 \<longrightarrow>
      map fst imp =
        [''typing_speed'', ''key_hold_time'', ''transition_time'', ''error_rate'',
         ''activity_hour'', ''speed_accuracy_ratio'', ''rhythm_ratio'']
      \<and> (\<exists>g. input_grad (model e) x = Inr g \<and> length g = 7
            \<and> (if \<exists>d\<in>set g. d \<noteq> 0
                then map snd imp = map (\<lambda>d. \<bar>d\<bar> / sum_list (map abs g)) g
                     \<and> sum_list (map snd imp) = 1
                else map snd imp = replicate 7 0)))
   \<and> (\<forall>r e'. predict e features hp t = Inr (r, e') \<longrightarrow>
        (\<exists>x'. length x' = 7 \<and> calculate_feature_importance e x' = Inr (feature_importance r)))"
proof (intro conjI allI impI)
  fix imp
  assume imp: "calculate_feature_importance e x = Inr imp" and len: "length x = 7"
  from imp obtain g where g: "input_grad (model e) x = Inr g"
    and i: "imp = importance_of_gradient g"
    unfolding calculate_feature_importance_def bind_result_Inr_iff by auto
  from input_grad_length [OF g] len have lg: "length g = 7" by simp
  show "map fst imp =
        [''typing_speed'', ''key_hold_time'', ''transition_time'', ''error_rate'',
         ''activity_hour'', ''speed_accuracy_ratio'', ''rhythm_ratio'']"
    unfolding i importance_of_gradient_names(1) [OF lg] by (simp add: feature_names_def)
  have "if \<exists>d\<in>set g. d \<noteq> 0
        then map snd imp = map (\<lambda>d. \<bar>d\<bar> / sum_list (map abs g)) g
             \<and> sum_list (map snd imp) = 1
        else map snd imp = replicate 7 0"
  proof (cases "\<exists>d\<in>set g. d \<noteq> 0")
    case True
    then have pos: "0 < sum_list (map abs g)" by (simp add: sum_list_abs_pos)
    then have m: "map snd imp = map (\<lambda>d. \<bar>d\<bar> / sum_list (map abs g)) g"
      unfolding i importance_of_gradient_names(2) [OF lg] by simp
    have "sum_list (map (\<lambda>d. \<bar>d\<bar> / sum_list (map abs g)) g) =
            sum_list (map abs g) / sum_list (map abs g)"
      by (rule sum_list_divide)
    also have "\<dots> = 1" using pos by simp
    finally show ?thesis using True m by simp
  next
    case False
    then have "\<not> 0 < sum_list (map abs g)" by (simp add: sum_list_abs_pos)
    then have "map snd imp = map abs g"
      unfolding i importance_of_gradient_names(2) [OF lg] by simp
    with all_zero_replicate [OF False] lg False show ?thesis by simp
  qed
  with g lg show "\<exists>g. input_grad (model e) x = Inr g \<and> length g = 7
            \<and> (if \<exists>d\<in>set g. d \<noteq> 0
                then map snd imp = map (\<lambda>d. \<bar>d\<bar> / sum_list (map abs g)) g
                     \<and> sum_list (map snd imp) = 1
                else map snd imp = replicate 7 0)"
    by blast
next
  fix r e'
  assume "predict e features hp t = Inr (r, e')"
  from predict_elim [OF this] obtain pv v x' g a c where
    pv: "feature_vector features = Inr pv" and v: "finite_values pv = Some v" and
    x: "(case scaler e of None \<Rightarrow> Inr v | Some sc \<Rightarrow> scaler_transform sc v) = Inr x'" and
    g: "input_grad (model e) x' = Inr g" and
    r: "r = \<lparr>confidence_score = c, anomaly_score = a,
              feature_importance = importance_of_gradient g\<rparr>"
    by blast
  have "length x' = 7" by (rule feature_tensor_length [OF pv v x])
  moreover have "calculate_feature_importance e x' = Inr (feature_importance r)"
    by (simp add: calculate_feature_importance_def g r)
  ultimately
  show "\<exists>x'. length x' = 7 \<and> calculate_feature_importance e x' = Inr (feature_importance r)"
    by blast
qed

theorem feature_importance_normalized_witness:
  "calculate_feature_importance (engine_of first_feature_model)
       [65, 120, 85, 3, 14, 65 / 4, 120 / 86] =
     Inr [(''typing_speed'', 1), (''key_hold_time'', 0), (''transition_time'', 0),
          (''error_rate'', 0), (''activity_hour'', 0), (''speed_accuracy_ratio'', 0),
          (''rhythm_ratio'', 0)]
   \<and> calculate_feature_importance (constant_engine 7 0)
       [65, 120, 85, 3, 14, 65 / 4, 120 / 86] =
     Inr [(''typing_speed'', 0), (''key_hold_time'', 0), (''transition_time'', 0),
          (''error_rate'', 0), (''activity_hour'', 0), (''speed_accuracy_ratio'', 0),
          (''rhythm_ratio'', 0)]"
proof -
  let ?x = "[65, 120, 85, 3, 14, 65 / 4, 120 / 86] :: real list"
  let ?y = "sigmoid 65 * (1 - sigmoid 65)"
  let ?names = "[''typing_speed'', ''key_hold_time'', ''transition_time'', ''error_rate'',
         ''activity_hour'', ''speed_accuracy_ratio'', ''rhythm_ratio'']"
  have y: "?y \<noteq> 0" using sigmoid_bounds [of 65] by simp
  have len: "length ?x = 7" by simp
  have z: "\<And>l a b. map fst l = a \<Longrightarrow> map snd l = b \<Longrightarrow> l = zip a b"
    by (metis zip_map_fst_snd)
  have g1: "input_grad (model (engine_of first_feature_model)) ?x = Inr [?y, 0, 0, 0, 0, 0, 0]"
    unfolding engine_of_def by (simp add: first_feature_input_grad)
  have c1: "calculate_feature_importance (engine_of first_feature_model) ?x =
              Inr (importance_of_gradient [?y, 0, 0, 0, 0, 0, 0])"
    unfolding calculate_feature_importance_def g1 by simp
  note t1 = feature_importance_normalized
         [of "engine_of first_feature_model" ?x example_features None 0,
          THEN conjunct1, rule_format, OF c1 len]
  from t1 have f1: "map fst (importance_of_gradient [?y, 0, 0, 0, 0, 0, 0]) = ?names"
    by (rule conjunct1)
  from t1 obtain g where
    gg: "input_grad (model (engine_of first_feature_model)) ?x = Inr g" and
    ifg: "if \<exists>d\<in>set g. d \<noteq> 0
          then map snd (importance_of_gradient [?y, 0, 0, 0, 0, 0, 0]) =
                 map (\<lambda>d. \<bar>d\<bar> / sum_list (map abs g)) g
               \<and> sum_list (map snd (importance_of_gradient [?y, 0, 0, 0, 0, 0, 0])) = 1
          else map snd (importance_of_gradient [?y, 0, 0, 0, 0, 0, 0]) = replicate 7 0"
    by blast
  from gg g1 have geq: "g = [?y, 0, 0, 0, 0, 0, 0]" by simp
  from ifg [unfolded geq] y
  have s1: "map snd (importance_of_gradient [?y, 0, 0, 0, 0, 0, 0]) = [1, 0, 0, 0, 0, 0, 0]"
    by simp
  have i1: "importance_of_gradient [?y, 0, 0, 0, 0, 0, 0] =
     [(''typing_speed'', 1), (''key_hold_time'', 0), (''transition_time'', 0),
          (''error_rate'', 0), (''activity_hour'', 0), (''speed_accuracy_ratio'', 0),
          (''rhythm_ratio'', 0)]"
    using z [OF f1 s1] by simp
  have g2: "input_grad (model (constant_engine 7 0)) ?x = Inr (replicate 7 0)"
    by (simp add: constant_engine_def engine_of_def input_grad_constant_model)
  have c2: "calculate_feature_importance (constant_engine 7 0) ?x =
              Inr (importance_of_gradient (replicate 7 0))"
    unfolding calculate_feature_importance_def g2 by simp
  note t2 = feature_importance_normalized
         [of "constant_engine 7 0" ?x example_features None 0,
          THEN conjunct1, rule_format, OF c2 len]
  from t2 have f2: "map fst (importance_of_gradient (replicate 7 0)) = ?names"
    by (rule conjunct1)
  from t2 obtain g' where
    gg': "input_grad (model (constant_engine 7 0)) ?x = Inr g'" and
    ifg': "if \<exists>d\<in>set g'. d \<noteq> 0
          then map snd (importance_of_gradient (replicate 7 0)) =
                 map (\<lambda>d. \<bar>d\<bar> / sum_list (map abs g')) g'
               \<and> sum_list (map snd (importance_of_gradient (replicate 7 0))) = 1
          else map snd (importance_of_gradient (replicate 7 0)) = replicate 7 0"
    by blast
  from gg' g2 have geq': "g' = replicate 7 0" by simp
  from ifg' [unfolded geq']
  have s2: "map snd (importance_of_gradient (replicate 7 0)) = [0, 0, 0, 0, 0, 0, 0]"
    by (simp add: numeral_eq_Suc)
  have i2: "importance_of_gradient (replicate 7 0) =
     [(''typing_speed'', 0), (''key_hold_time'', 0), (''transition_time'', 0),
          (''error_rate'', 0), (''activity_hour'', 0), (''speed_accuracy_ratio'', 0),
          (''rhythm_ratio'', 0)]"
    using z [OF f2 s2] by simp
  show ?thesis unfolding c1 c2 i1 i2 by simp
qed

section \<open>Statistics\<close>

lemma update_stats_total [simp]:
  "total_predictions (update_stats s c t) = total_predictions s + 1"
  by (simp add: update_stats_def Let_def)












section \<open>A model built with 7 inputs\<close>

text \<open>
  The training script and the tests build \<open>BehavioralAuthNN(input_dim=7)\<close>. Such a model,
  with any checkpoint that \<open>load_state_dict\<close> accepts, is defined on every tensor of 7
  entries, and its output is a single number strictly between 0 and 1.
\<close>

lemma load_linear_shape:
  assumes "load_linear n_in n_out s = Inr l"
  shows "in_features l = n_in" "length (weight l) = n_out" "length (bias l) = n_out"
  using assms by (auto simp: load_linear_def split: prod.splits if_splits)

lemma load_batch_norm_shape:
  assumes "load_batch_norm n s = Inr bn"
  shows "num_features bn = n" "length (bn_weight bn) = n" "length (bn_bias bn) = n"
    "length (running_mean bn) = n" "length (running_var bn) = n"
  using assms by (auto simp: load_batch_norm_def split: prod.splits if_splits)

lemma hidden_block_loaded:
  assumes "load_linear n_in n_out s = Inr l" and "load_batch_norm n_out s' = Inr bn"
    and "length x = n_in"
  shows "\<exists>y. hidden_block l bn x = Inr y \<and> length y = n_out"
  using load_linear_shape [OF assms(1)] load_batch_norm_shape [OF assms(2)] assms(3)
  by (simp add: hidden_block_def linear_forward_def batch_norm_eval_def bn_scale_def)

lemma loaded_model_defined:
  assumes "BehavioralAuthNN_load input_dim hidden_dims sd = Inr m"
    and "length x = input_dim"
  shows "\<exists>s. forward m x = Inr [s] \<and> 0 < s \<and> s < 1"
proof -
  obtain h0 h1 h2 where h: "hidden_dims = (h0, h1, h2)" by (cases hidden_dims) auto
  from assms(1) obtain l1 n1 l2 n2 l3 n3 lo where
    l1: "load_linear input_dim h0 (sd_fc1 sd) = Inr l1" and
    n1: "load_batch_norm h0 (sd_bn1 sd) = Inr n1" and
    l2: "load_linear h0 h1 (sd_fc2 sd) = Inr l2" and
    n2: "load_batch_norm h1 (sd_bn2 sd) = Inr n2" and
    l3: "load_linear h1 h2 (sd_fc3 sd) = Inr l3" and
    n3: "load_batch_norm h2 (sd_bn3 sd) = Inr n3" and
    lo: "load_linear h2 1 (sd_fc_out sd) = Inr lo" and
    m: "m = \<lparr>fc1 = l1, bn1 = n1, fc2 = l2, bn2 = n2, fc3 = l3, bn3 = n3, fc_out = lo\<rparr>"
    unfolding BehavioralAuthNN_load_def h prod.case bind_result_Inr_iff by auto
  from hidden_block_loaded [OF l1 n1 assms(2)] obtain b1 where
    b1: "hidden_block l1 n1 x = Inr b1" "length b1 = h0" by blast
  from hidden_block_loaded [OF l2 n2, of "map relu b1"] b1(2) obtain b2 where
    b2: "hidden_block l2 n2 (map relu b1) = Inr b2" "length b2 = h1" by auto
  from hidden_block_loaded [OF l3 n3, of "map relu b2"] b2(2) obtain b3 where
    b3: "hidden_block l3 n3 (map relu b2) = Inr b3" "length b3 = h2" by auto
  from load_linear_shape [OF lo] b3(2) obtain z where
    z: "linear_forward lo (map relu b3) = Inr z" "length z = 1"
    by (simp add: linear_forward_def)
  from z(2) obtain z0 where z0: "z = [z0]" by (cases z) auto
  have "forward m x = Inr [sigmoid z0]"
    by (simp add: forward_def m b1(1) b2(1) b3(1) z(1) z0)
  with sigmoid_bounds [of z0] show ?thesis by blast
qed

text \<open>
  The engine does not accept the checkpoint of such a model: \<open>load_state_dict\<close> raises on
  the weight of the first layer, whose rows have 7 entries where the model of the engine
  has 6.
\<close>

lemma engine_init_rejects_7_input_checkpoint:
  "engine_init (state_dict_of (constant_model 7 default_hidden_dims b)) sc = Inl SizeMismatch"
  by (simp add: engine_init_def BehavioralAuthNN_load_def default_hidden_dims_def
        default_input_dim_def state_dict_of_def constant_model_def linear_state_of_def
        constant_linear_def load_linear_def list_all_iff)

section \<open>The entries of a feature vector\<close>

text \<open>After clipping no entry of a feature vector is an infinity.\<close>

lemma feature_vector_finite_or_nan:
  assumes "feature_vector features = Inr pv" and "x \<in> set pv"
  shows "x = NaN \<or> (\<exists>r. x = Finite r)"
proof -
  from assms(1) obtain p where p: "process_features features = Inr p"
    unfolding feature_vector_def bind_result_Inr_iff by blast
  from process_features_Inr [OF p] obtain t k r e a where
    pe: "p = [np_clip t 10 200, np_clip k 20 500, np_clip r 20 400, np_clip e 0 50,
              np_clip a 0 23]" by blast
  have c: "\<And>v lo hi. lo \<le> hi \<Longrightarrow> np_clip v lo hi = NaN \<or> (\<exists>r. np_clip v lo hi = Finite r)"
    using np_clip_cases by blast
  from feature_vector_of_processed [OF p] assms(1)
  have "pv = p @ [case (p ! 0, p ! 3) of
                    (Finite t, Finite e) \<Rightarrow> Finite (t / (e + 1)) | _ \<Rightarrow> NaN,
                  case (p ! 1, p ! 2) of
                    (Finite k, Finite r) \<Rightarrow> Finite (k / (r + 1)) | _ \<Rightarrow> NaN]"
    by simp
  with assms(2) pe c [of 10 200 t] c [of 20 500 k] c [of 20 400 r] c [of 0 50 e] c [of 0 23 a]
  show ?thesis by (auto split: py_float.splits)
qed

end
